theory Spec2Isabelle
  imports Main "HOL-Library.Word"
begin

section \<open>Data model\<close>

text \<open>
  The controller of the hostpath provisioner operator (package hostpathprovisioner).
  Go slices are modelled as \<open>'a list option\<close>: \<open>None\<close> is the nil slice, \<open>Some []\<close> an
  empty slice that is not nil, so that HOL equality on the records below is
  \<open>reflect.DeepEqual\<close>. Times are abstract instants.
\<close>

record Condition =
  Type :: string
  Status :: string
  Reason :: string
  Message :: string
  LastTransitionTime :: nat
  LastHeartbeatTime :: nat

record HostPathProvisioner =
  Name :: string
  ResourceVersion :: string
  DeletionTimestamp :: "nat option"
  Finalizers :: "string list option"
  PathConfig :: "string option"
  FeatureGates :: "string list option"
  Conditions :: "Condition list option"
  OperatorVersion :: string
  TargetVersion :: string
  ObservedVersion :: string

text \<open>The status of a DaemonSet: two int32 counters.\<close>

record DaemonSet =
  NumberReady :: "32 word"
  DesiredNumberScheduled :: "32 word"

text \<open>\<open>&appsv1.DaemonSet{}\<close>: the zero value.\<close>

definition emptyDaemonSet :: DaemonSet where
  "emptyDaemonSet = \<lparr>NumberReady = 0, DesiredNumberScheduled = 0\<rparr>"

text \<open>\<open>reconcile.Result\<close>; durations are nanoseconds.\<close>

record Result =
  Requeue :: bool
  RequeueAfter :: int

definition emptyResult :: Result where
  "emptyResult = \<lparr>Requeue = False, RequeueAfter = 0\<rparr>"

definition Second :: int where
  "Second = 1000000000"

text \<open>
  Error values. \<open>MultipleHPPs\<close> and \<open>Downgraded\<close> are the two errors the controller
  builds itself with \<open>fmt.Errorf\<close>; \<open>NotFound\<close> is what \<open>errors.IsNotFound\<close>
  recognises; \<open>Failure\<close> is any other error of a collaborator.
\<close>

datatype error =
    NotFound string
  | MultipleHPPs nat
  | Downgraded string string
  | Failure string

fun IsNotFound :: "error \<Rightarrow> bool" where
  "IsNotFound (NotFound _) = True"
| "IsNotFound _ = False"

text \<open>The elements of a slice; ranging over a nil slice is ranging over no element.\<close>

fun elems :: "'a list option \<Rightarrow> 'a list" where
  "elems None = []"
| "elems (Some xs) = xs"

section \<open>Readiness of a daemon workload\<close>

definition checkApplicationAvailable :: "DaemonSet \<Rightarrow> bool" where
  "checkApplicationAvailable daemonSet = (0 <s NumberReady daemonSet)"

definition checkDaemonSetReady :: "DaemonSet \<Rightarrow> bool" where
  "checkDaemonSetReady daemonSet =
     (checkApplicationAvailable daemonSet \<and>
      DesiredNumberScheduled daemonSet \<le>s NumberReady daemonSet)"

section \<open>The version gate\<close>

text \<open>
  \<open>canUpgrade\<close> calls \<open>version.GetVersionFromString\<close> and the \<open>Compare\<close> and
  \<open>String\<close> methods of the parsed version. The version package is not among the
  sources, so the three are parameters: a parser that returns an error or a version,
  a three-way comparison and a printer. The Go function returns the pair
  \<open>(bool, error)\<close>.
\<close>

definition canUpgrade ::
  "(string \<Rightarrow> error + 'v) \<Rightarrow> ('v \<Rightarrow> 'v \<Rightarrow> int) \<Rightarrow> ('v \<Rightarrow> string) \<Rightarrow>
   string \<Rightarrow> string \<Rightarrow> bool \<times> error option" where
  "canUpgrade getVersionFromString compare toString current target =
     (if current = [] then (False, None)
      else if target = current then (False, None)
      else
        (case (getVersionFromString target, getVersionFromString current) of
           (Inr targetSemver, Inr currentSemver) \<Rightarrow>
             if compare targetSemver currentSemver < 0
             then (False, Some (Downgraded (toString currentSemver) (toString targetSemver)))
             else if compare targetSemver currentSemver = 0 then (False, None)
             else (True, None)
         | _ \<Rightarrow> (True, None)))"

text \<open>
  A plain MAJOR.MINOR.PATCH reader, comparison and printer, to run the version gate on concrete
  version strings: three dot-separated non-empty decimal numbers.
\<close>

fun splitDots :: "string \<Rightarrow> string list" where
  "splitDots [] = [[]]"
| "splitDots (c # cs) =
     (if c = CHR ''.'' then [] # splitDots cs
      else (case splitDots cs of [] \<Rightarrow> [[c]] | p # ps \<Rightarrow> (c # p) # ps))"

definition digitVal :: "char \<Rightarrow> nat option" where
  "digitVal c =
     (let n = (of_char c :: nat) in if 48 \<le> n \<and> n \<le> 57 then Some (n - 48) else None)"

fun readDigits :: "nat \<Rightarrow> string \<Rightarrow> nat option" where
  "readDigits acc [] = Some acc"
| "readDigits acc (c # cs) =
     (case digitVal c of None \<Rightarrow> None | Some d \<Rightarrow> readDigits (10 * acc + d) cs)"

definition readNumber :: "string \<Rightarrow> nat option" where
  "readNumber s = (if s = [] then None else readDigits 0 s)"

definition parseDotted :: "string \<Rightarrow> error + (nat \<times> nat \<times> nat)" where
  "parseDotted s =
     (case map readNumber (splitDots s) of
        [Some major, Some minor, Some patch] \<Rightarrow> Inr (major, minor, patch)
      | _ \<Rightarrow> Inl (Failure s))"

definition compareNat :: "nat \<Rightarrow> nat \<Rightarrow> int" where
  "compareNat a b = (if a < b then -1 else if b < a then 1 else 0)"

fun compareDotted :: "(nat \<times> nat \<times> nat) \<Rightarrow> (nat \<times> nat \<times> nat) \<Rightarrow> int" where
  "compareDotted (a1, a2, a3) (b1, b2, b3) =
     (if compareNat a1 b1 \<noteq> 0 then compareNat a1 b1
      else if compareNat a2 b2 \<noteq> 0 then compareNat a2 b2
      else compareNat a3 b3)"

fun showNat :: "nat \<Rightarrow> string" where
  "showNat n =
     (if n < 10 then [''0123456789'' ! n]
      else showNat (n div 10) @ [''0123456789'' ! (n mod 10)])"

fun showDotted :: "(nat \<times> nat \<times> nat) \<Rightarrow> string" where
  "showDotted (a, b, c) = showNat a @ ''.'' @ showNat b @ ''.'' @ showNat c"

section \<open>Finalizers\<close>

definition HasFinalizer :: "HostPathProvisioner \<Rightarrow> string \<Rightarrow> bool" where
  "HasFinalizer object v = (v \<in> set (elems (Finalizers object)))"

text \<open>\<open>append\<close> to a slice, nil or not, gives a slice that is not nil.\<close>

definition AddFinalizer :: "HostPathProvisioner \<Rightarrow> string \<Rightarrow> HostPathProvisioner" where
  "AddFinalizer obj name =
     (if HasFinalizer obj name then obj
      else obj\<lparr>Finalizers := Some (elems (Finalizers obj) @ [name])\<rparr>)"

text \<open>
  \<open>var finalizers []string\<close> starts nil and stays nil when no other finalizer is
  appended to it.
\<close>

definition RemoveFinalizer :: "HostPathProvisioner \<Rightarrow> string \<Rightarrow> HostPathProvisioner" where
  "RemoveFinalizer obj name =
     (if \<not> HasFinalizer obj name then obj
      else
        (let finalizers = filter (\<lambda>f. f \<noteq> name) (elems (Finalizers obj))
         in obj\<lparr>Finalizers := (if finalizers = [] then None else Some finalizers)\<rparr>))"

definition hppFinalizer :: string where
  "hppFinalizer = ''finalizer.delete.hostpath-provisioner''"

section \<open>Heartbeat normalisation\<close>

text \<open>
  \<open>conditions.FindStatusCondition\<close> of the custom-resource-status library: a pointer
  to the first condition of the given type, or nil.
\<close>

fun FindStatusCondition :: "Condition list \<Rightarrow> string \<Rightarrow> Condition option" where
  "FindStatusCondition [] conditionType = None"
| "FindStatusCondition (c # cs) conditionType =
     (if Type c = conditionType then Some c else FindStatusCondition cs conditionType)"

text \<open>
  The loop of \<open>ignoreHeartBeatTimestamp\<close> over the conditions of the snapshot, given
  the conditions of the current CR. The result of the lookup is dereferenced with no nil
  check: \<open>None\<close> is the nil pointer dereference (a panic). Iteration \<open>i\<close> only writes
  element \<open>i\<close> of the snapshot, and the snapshot is a deep copy that shares nothing
  with the CR.
\<close>

fun ignoreHeartBeatLoop :: "Condition list \<Rightarrow> Condition list \<Rightarrow> Condition list option" where
  "ignoreHeartBeatLoop crConditions [] = Some []"
| "ignoreHeartBeatLoop crConditions (condition # rest) =
     (case FindStatusCondition crConditions (Type condition) of
        None \<Rightarrow> None
      | Some crCond \<Rightarrow>
          (case ignoreHeartBeatLoop crConditions rest of
             None \<Rightarrow> None
           | Some rest' \<Rightarrow>
               Some ((if Message crCond = Message condition \<and> Reason crCond = Reason condition
                         \<and> Status crCond = Status condition
                      then condition\<lparr>LastHeartbeatTime := LastHeartbeatTime crCond\<rparr>
                      else condition) # rest')))"

text \<open>The snapshot after the call, or \<open>None\<close> when the call panics.\<close>

definition ignoreHeartBeatTimestamp ::
  "HostPathProvisioner \<Rightarrow> HostPathProvisioner \<Rightarrow> HostPathProvisioner option" where
  "ignoreHeartBeatTimestamp currentCopy cr =
     (case Conditions currentCopy of
        None \<Rightarrow> Some currentCopy
      | Some conds \<Rightarrow>
          (case ignoreHeartBeatLoop (elems (Conditions cr)) conds of
             None \<Rightarrow> None
           | Some conds' \<Rightarrow> Some (currentCopy\<lparr>Conditions := Some conds'\<rparr>)))"

definition isLegacy :: "HostPathProvisioner \<Rightarrow> bool" where
  "isLegacy cr = (PathConfig cr \<noteq> None)"

definition isFeatureGateEnabled :: "string \<Rightarrow> HostPathProvisioner \<Rightarrow> bool" where
  "isFeatureGateEnabled feature cr = (feature \<in> set (elems (FeatureGates cr)))"

section \<open>The cluster, the collaborators and the effects of a run\<close>

text \<open>
  Every call that leaves the reconciler and may change something: the methods of the
  reconciler that are defined in other files of the package (one constructor each, with
  the names and namespaces they are called with), the update of the CR through the
  client, the event recorder and the readiness gauge.
\<close>

datatype Call =
    CleanDeployments string
  | RemoveCleanUpJobs string
  | DeleteSCC string
  | DeletePrometheusResources string
  | DeleteClusterRoleBindingObject string
  | DeleteClusterRoleObject string
  | DeleteRoleBindingObject string string
  | DeleteRoleObject string string
  | DeleteCSIDriver
  | ReconcileDaemonSet string
  | ReconcileStoragePools string
  | ReconcileServiceAccount string
  | ReconcileClusterRole
  | ReconcileClusterRoleBinding string
  | ReconcileRole string
  | ReconcileRoleBinding string
  | ReconcileCSIDriver
  | ReconcileSecurityContextConstraints string
  | ReconcilePrometheusInfra string
  | ReconcileStoragePoolStatus string
  | ClientUpdate HostPathProvisioner
  | RecorderEvent string string string
  | SetReadyGaugeValue int

text \<open>
  The world of a run: the object store, of any type \<open>'s\<close>, and the trace of the calls
  made so far, each with the error it returned (\<open>None\<close> is nil).
\<close>

record 's world =
  store :: 's
  trace :: "(Call \<times> error option) list"

text \<open>
  The collaborators, as the fields of one record. Reads of the client (\<open>List\<close>,
  \<open>Get\<close>) and the two queries of the cleanup wait are functions of the store. Every
  other method takes the store and returns the new one; a method that is handed the
  pointer to the CR also returns the CR. The \<open>MarkCr...\<close> functions, the four predicates
  on the CR, the version package and the names and messages are defined in files that
  are not among the sources: they are parameters too. \<open>errorText\<close> is \<open>err.Error()\<close>.
\<close>

record ('s, 'v) env =
  clientList :: "'s \<Rightarrow> error + HostPathProvisioner list"
  clientGet :: "'s \<Rightarrow> string \<times> string \<Rightarrow> error + HostPathProvisioner"
  clientGetDaemonSet :: "'s \<Rightarrow> string \<Rightarrow> string \<Rightarrow> error + DaemonSet"
  clientUpdate :: "'s \<Rightarrow> HostPathProvisioner \<Rightarrow> error option \<times> 's \<times> HostPathProvisioner"
  VersionStringFunc :: "error + string"
  GetVersionFromString :: "string \<Rightarrow> error + 'v"
  Compare :: "'v \<Rightarrow> 'v \<Rightarrow> int"
  SemverString :: "'v \<Rightarrow> string"
  errorText :: "error \<Rightarrow> string"
  watchNamespaceFunc :: string
  MultiPurposeHostPathProvisionerName :: string
  ProvisionerServiceAccountName :: string
  ProvisionerServiceAccountNameCsi :: string
  deployStarted :: string
  deployStartedMessage :: string
  upgradeStarted :: string
  reconcileFailed :: string
  provisionerHealthy :: string
  provisionerHealthyMessage :: string
  IsHppAvailable :: "HostPathProvisioner \<Rightarrow> bool"
  IsHppProgressing :: "HostPathProvisioner \<Rightarrow> bool"
  isDeploying :: "HostPathProvisioner \<Rightarrow> bool"
  isUpgrading :: "HostPathProvisioner \<Rightarrow> bool"
  MarkCrDeploying :: "HostPathProvisioner \<Rightarrow> string \<Rightarrow> string \<Rightarrow> HostPathProvisioner"
  MarkCrUpgradeHealingDegraded :: "HostPathProvisioner \<Rightarrow> string \<Rightarrow> string \<Rightarrow> HostPathProvisioner"
  MarkCrFailedHealing :: "HostPathProvisioner \<Rightarrow> string \<Rightarrow> string \<Rightarrow> HostPathProvisioner"
  MarkCrHealthyMessage :: "HostPathProvisioner \<Rightarrow> string \<Rightarrow> string \<Rightarrow> HostPathProvisioner"
  MarkCrFailed :: "HostPathProvisioner \<Rightarrow> string \<Rightarrow> string \<Rightarrow> HostPathProvisioner"
  cleanDeployments :: "'s \<Rightarrow> HostPathProvisioner \<Rightarrow> string \<Rightarrow> error option \<times> 's \<times> HostPathProvisioner"
  currentStoragePoolDeployments :: "'s \<Rightarrow> HostPathProvisioner \<Rightarrow> string \<Rightarrow> error + string list"
  hasCleanUpFinished :: "'s \<Rightarrow> string \<Rightarrow> error + bool"
  removeCleanUpJobs :: "'s \<Rightarrow> string \<Rightarrow> error option \<times> 's"
  deleteSCC :: "'s \<Rightarrow> string \<Rightarrow> error option \<times> 's"
  deletePrometheusResources :: "'s \<Rightarrow> string \<Rightarrow> error option \<times> 's"
  deleteClusterRoleBindingObject :: "'s \<Rightarrow> string \<Rightarrow> error option \<times> 's"
  deleteClusterRoleObject :: "'s \<Rightarrow> string \<Rightarrow> error option \<times> 's"
  deleteRoleBindingObject :: "'s \<Rightarrow> string \<Rightarrow> string \<Rightarrow> error option \<times> 's"
  deleteRoleObject :: "'s \<Rightarrow> string \<Rightarrow> string \<Rightarrow> error option \<times> 's"
  deleteCSIDriver :: "'s \<Rightarrow> error option \<times> 's"
  reconcileDaemonSet :: "'s \<Rightarrow> HostPathProvisioner \<Rightarrow> string \<Rightarrow> (Result \<times> error option) \<times> 's \<times> HostPathProvisioner"
  reconcileStoragePools :: "'s \<Rightarrow> HostPathProvisioner \<Rightarrow> string \<Rightarrow> (Result \<times> error option) \<times> 's \<times> HostPathProvisioner"
  reconcileServiceAccount :: "'s \<Rightarrow> HostPathProvisioner \<Rightarrow> string \<Rightarrow> (Result \<times> error option) \<times> 's \<times> HostPathProvisioner"
  reconcileClusterRole :: "'s \<Rightarrow> HostPathProvisioner \<Rightarrow> (Result \<times> error option) \<times> 's \<times> HostPathProvisioner"
  reconcileClusterRoleBinding :: "'s \<Rightarrow> HostPathProvisioner \<Rightarrow> string \<Rightarrow> (Result \<times> error option) \<times> 's \<times> HostPathProvisioner"
  reconcileRole :: "'s \<Rightarrow> HostPathProvisioner \<Rightarrow> string \<Rightarrow> (Result \<times> error option) \<times> 's \<times> HostPathProvisioner"
  reconcileRoleBinding :: "'s \<Rightarrow> HostPathProvisioner \<Rightarrow> string \<Rightarrow> (Result \<times> error option) \<times> 's \<times> HostPathProvisioner"
  reconcileCSIDriver :: "'s \<Rightarrow> HostPathProvisioner \<Rightarrow> (Result \<times> error option) \<times> 's \<times> HostPathProvisioner"
  reconcileSecurityContextConstraints :: "'s \<Rightarrow> HostPathProvisioner \<Rightarrow> string \<Rightarrow> (Result \<times> error option) \<times> 's \<times> HostPathProvisioner"
  reconcilePrometheusInfra :: "'s \<Rightarrow> HostPathProvisioner \<Rightarrow> string \<Rightarrow> (Result \<times> error option) \<times> 's \<times> HostPathProvisioner"
  reconcileStoragePoolStatus :: "'s \<Rightarrow> HostPathProvisioner \<Rightarrow> string \<Rightarrow> error option \<times> 's \<times> HostPathProvisioner"

text \<open>Making a call: the store becomes the one the call returns, the trace grows by one.\<close>

definition emit :: "Call \<Rightarrow> 's world \<Rightarrow> 's world" where
  "emit c w = w\<lparr>trace := trace w @ [(c, None)]\<rparr>"

definition callDelete ::
  "Call \<Rightarrow> ('s \<Rightarrow> error option \<times> 's) \<Rightarrow> 's world \<Rightarrow> error option \<times> 's world" where
  "callDelete c f w =
     (case f (store w) of
        (err, s') \<Rightarrow> (err, \<lparr>store = s', trace = trace w @ [(c, err)]\<rparr>))"

definition callStatus ::
  "Call \<Rightarrow> ('s \<Rightarrow> error option \<times> 's \<times> HostPathProvisioner) \<Rightarrow> 's world \<Rightarrow>
   error option \<times> 's world \<times> HostPathProvisioner" where
  "callStatus c f w =
     (case f (store w) of
        (err, s', cr') \<Rightarrow> (err, \<lparr>store = s', trace = trace w @ [(c, err)]\<rparr>, cr'))"

definition callReconcile ::
  "Call \<Rightarrow> ('s \<Rightarrow> (Result \<times> error option) \<times> 's \<times> HostPathProvisioner) \<Rightarrow> 's world \<Rightarrow>
   (Result \<times> error option) \<times> 's world \<times> HostPathProvisioner" where
  "callReconcile c f w =
     (case f (store w) of
        ((res, err), s', cr') \<Rightarrow>
          ((res, err), \<lparr>store = s', trace = trace w @ [(c, err)]\<rparr>, cr'))"

definition callUpdate ::
  "('s, 'v) env \<Rightarrow> 's world \<Rightarrow> HostPathProvisioner \<Rightarrow>
   error option \<times> 's world \<times> HostPathProvisioner" where
  "callUpdate env w cr = callStatus (ClientUpdate cr) (\<lambda>s. clientUpdate env s cr) w"

section \<open>The reconciler\<close>

definition getHppList :: "('s, 'v) env \<Rightarrow> 's \<Rightarrow> error + HostPathProvisioner list" where
  "getHppList env s =
     (case clientList env s of Inl err \<Rightarrow> Inl err | Inr hppList \<Rightarrow> Inr hppList)"

definition addFinalizer ::
  "('s, 'v) env \<Rightarrow> 's world \<Rightarrow> HostPathProvisioner \<Rightarrow>
   error option \<times> 's world \<times> HostPathProvisioner" where
  "addFinalizer env w obj =
     (if DeletionTimestamp obj = None then
        (let currentFinalizers = Finalizers obj;
             obj1 = AddFinalizer obj hppFinalizer
         in if currentFinalizers \<noteq> Finalizers obj1 then callUpdate env w obj1
            else (None, w, obj1))
      else (None, w, obj))"

definition reconcileCleanup ::
  "('s, 'v) env \<Rightarrow> 's world \<Rightarrow> HostPathProvisioner \<Rightarrow> string \<Rightarrow> int \<Rightarrow>
   (Result \<times> error option) \<times> 's world" where
  "reconcileCleanup env w cr namespace deploymentCount =
     (case currentStoragePoolDeployments env (store w) cr namespace of
        Inl err \<Rightarrow> ((emptyResult, Some err), w)
      | Inr spDeployments \<Rightarrow>
          (case hasCleanUpFinished env (store w) namespace of
             Inl err \<Rightarrow> ((emptyResult, Some err), w)
           | Inr cleanupFinished \<Rightarrow>
               if int (length spDeployments) = deploymentCount \<and> cleanupFinished then
                 (case callDelete (RemoveCleanUpJobs namespace)
                         (\<lambda>s. removeCleanUpJobs env s namespace) w of
                    (Some err, w1) \<Rightarrow> ((emptyResult, Some err), w1)
                  | (None, w1) \<Rightarrow> ((emptyResult, None), w1))
               else ((\<lparr>Requeue = False, RequeueAfter = Second\<rparr>, None), w)))"

fun deleteAllRbacLoop ::
  "('s, 'v) env \<Rightarrow> string \<Rightarrow> string list \<Rightarrow> 's world \<Rightarrow> (Result \<times> error option) \<times> 's world" where
  "deleteAllRbacLoop env namespace [] w = ((emptyResult, None), w)"
| "deleteAllRbacLoop env namespace (name # names) w =
     (case callDelete (DeleteClusterRoleBindingObject name)
             (\<lambda>s. deleteClusterRoleBindingObject env s name) w of
        (Some err, w1) \<Rightarrow> ((emptyResult, Some err), w1)
      | (None, w1) \<Rightarrow>
     (case callDelete (DeleteClusterRoleObject name)
             (\<lambda>s. deleteClusterRoleObject env s name) w1 of
        (Some err, w2) \<Rightarrow> ((emptyResult, Some err), w2)
      | (None, w2) \<Rightarrow>
     (case callDelete (DeleteRoleBindingObject name namespace)
             (\<lambda>s. deleteRoleBindingObject env s name namespace) w2 of
        (Some err, w3) \<Rightarrow> ((emptyResult, Some err), w3)
      | (None, w3) \<Rightarrow>
     (case callDelete (DeleteRoleObject name namespace)
             (\<lambda>s. deleteRoleObject env s name namespace) w3 of
        (Some err, w4) \<Rightarrow> ((emptyResult, Some err), w4)
      | (None, w4) \<Rightarrow> deleteAllRbacLoop env namespace names w4))))"

definition deleteAllRbac ::
  "('s, 'v) env \<Rightarrow> 's world \<Rightarrow> string \<Rightarrow> (Result \<times> error option) \<times> 's world" where
  "deleteAllRbac env w namespace =
     deleteAllRbacLoop env namespace
       [ProvisionerServiceAccountName env, ProvisionerServiceAccountNameCsi env,
        MultiPurposeHostPathProvisionerName env] w"

text \<open>
  The two \<open>Get\<close> calls of \<open>reconcileUpdate\<close> and \<open>checkDegraded\<close>: the legacy
  DaemonSet is only read in legacy mode and is the zero value otherwise.
\<close>

definition getLegacyDaemonSet ::
  "('s, 'v) env \<Rightarrow> 's \<Rightarrow> HostPathProvisioner \<Rightarrow> string \<Rightarrow> error + DaemonSet" where
  "getLegacyDaemonSet env s cr namespace =
     (if isLegacy cr
      then clientGetDaemonSet env s (MultiPurposeHostPathProvisionerName env) namespace
      else Inr emptyDaemonSet)"

definition getCsiDaemonSet :: "('s, 'v) env \<Rightarrow> 's \<Rightarrow> string \<Rightarrow> error + DaemonSet" where
  "getCsiDaemonSet env s namespace =
     clientGetDaemonSet env s (MultiPurposeHostPathProvisionerName env @ ''-csi'') namespace"

definition checkDegraded ::
  "('s, 'v) env \<Rightarrow> 's world \<Rightarrow> HostPathProvisioner \<Rightarrow> string \<Rightarrow>
   (bool \<times> error option) \<times> HostPathProvisioner" where
  "checkDegraded env w cr namespace =
     (case getLegacyDaemonSet env (store w) cr namespace of
        Inl err \<Rightarrow> ((True, Some err), cr)
      | Inr daemonSet \<Rightarrow>
          (case getCsiDaemonSet env (store w) namespace of
             Inl err \<Rightarrow> ((True, Some err), cr)
           | Inr daemonSetCsi \<Rightarrow>
               (let degraded =
                      (\<not> ((\<not> isLegacy cr \<or> checkDaemonSetReady daemonSet)
                          \<and> checkDaemonSetReady daemonSetCsi))
                in ((degraded, None),
                    if degraded \<and> \<not> isDeploying env cr
                    then MarkCrFailed env cr ''Degraded''
                           ''CR is deployed but DaemonSets are not ready''
                    else cr))))"

definition reconcileStatus ::
  "('s, 'v) env \<Rightarrow> 's world \<Rightarrow> HostPathProvisioner \<Rightarrow> string \<Rightarrow> string \<Rightarrow>
   (Result \<times> error option) \<times> 's world \<times> HostPathProvisioner" where
  "reconcileStatus env w cr namespace versionString =
     (case checkDegraded env w cr namespace of
        ((degraded, Some err), cr1) \<Rightarrow> ((emptyResult, Some err), w, cr1)
      | ((degraded, None), cr1) \<Rightarrow>
          (case callStatus (ReconcileStoragePoolStatus namespace)
                  (\<lambda>s. reconcileStoragePoolStatus env s cr1 namespace) w of
             (Some err, w1, cr2) \<Rightarrow>
               ((emptyResult, Some err), w1,
                MarkCrFailedHealing env cr2 ''StoragePoolNotReady'' (errorText env err))
           | (None, w1, cr2) \<Rightarrow>
               ((emptyResult, None), w1,
                if \<not> degraded \<and> ObservedVersion cr2 \<noteq> versionString
                then cr2\<lparr>ObservedVersion := versionString\<rparr> else cr2)))"

text \<open>
  The end of \<open>reconcileUpdate\<close>, after the ten owned-resource kinds: the two DaemonSets
  are read, the CR is marked healthy when they are ready, and the cleanup wait runs with
  the number of scheduled CSI pods as its target. \<open>res\<close> is the result of the last of
  the ten steps, which the function returns at its end.
\<close>

definition reconcileAvailability ::
  "('s, 'v) env \<Rightarrow> 's world \<Rightarrow> HostPathProvisioner \<Rightarrow> string \<Rightarrow> Result \<Rightarrow>
   (Result \<times> error option) \<times> 's world \<times> HostPathProvisioner" where
  "reconcileAvailability env w cr namespace res =
     (case getLegacyDaemonSet env (store w) cr namespace of
        Inl err \<Rightarrow> ((emptyResult, Some err), w, cr)
      | Inr daemonSet \<Rightarrow>
          (case getCsiDaemonSet env (store w) namespace of
             Inl err \<Rightarrow> ((emptyResult, Some err), w, cr)
           | Inr daemonSetCsi \<Rightarrow>
               (let healthy =
                      ((\<not> isLegacy cr \<or> checkDaemonSetReady daemonSet)
                        \<and> checkDaemonSetReady daemonSetCsi);
                    cr1 = (if healthy
                           then MarkCrHealthyMessage env cr ''Complete'' ''Application Available''
                           else cr);
                    w1 = (if healthy
                          then emit (RecorderEvent ''Normal'' (provisionerHealthy env)
                                       (provisionerHealthyMessage env)) w
                          else w)
                in (case reconcileCleanup env w1 cr1 namespace
                           (sint (DesiredNumberScheduled daemonSetCsi)) of
                      ((res', err), w2) \<Rightarrow>
                        if err \<noteq> None \<or> RequeueAfter res' = Second
                        then ((res', err), w2, cr1)
                        else ((res, None), w2, cr1)))))"

definition reconcileUpdate ::
  "('s, 'v) env \<Rightarrow> 's world \<Rightarrow> HostPathProvisioner \<Rightarrow> string \<Rightarrow>
   (Result \<times> error option) \<times> 's world \<times> HostPathProvisioner" where
  "reconcileUpdate env w cr namespace =
     (case callReconcile (ReconcileDaemonSet namespace)
             (\<lambda>s. reconcileDaemonSet env s cr namespace) w of
        ((res, Some err), w1, cr1) \<Rightarrow> ((res, Some err), w1, cr1)
      | ((res, None), w1, cr1) \<Rightarrow>
     (case callReconcile (ReconcileStoragePools namespace)
             (\<lambda>s. reconcileStoragePools env s cr1 namespace) w1 of
        ((res, Some err), w2, cr2) \<Rightarrow> ((res, Some err), w2, cr2)
      | ((res, None), w2, cr2) \<Rightarrow>
     (case callReconcile (ReconcileServiceAccount namespace)
             (\<lambda>s. reconcileServiceAccount env s cr2 namespace) w2 of
        ((res, Some err), w3, cr3) \<Rightarrow> ((res, Some err), w3, cr3)
      | ((res, None), w3, cr3) \<Rightarrow>
     (case callReconcile ReconcileClusterRole
             (\<lambda>s. reconcileClusterRole env s cr3) w3 of
        ((res, Some err), w4, cr4) \<Rightarrow> ((res, Some err), w4, cr4)
      | ((res, None), w4, cr4) \<Rightarrow>
     (case callReconcile (ReconcileClusterRoleBinding namespace)
             (\<lambda>s. reconcileClusterRoleBinding env s cr4 namespace) w4 of
        ((res, Some err), w5, cr5) \<Rightarrow> ((res, Some err), w5, cr5)
      | ((res, None), w5, cr5) \<Rightarrow>
     (case callReconcile (ReconcileRole namespace)
             (\<lambda>s. reconcileRole env s cr5 namespace) w5 of
        ((res, Some err), w6, cr6) \<Rightarrow> ((res, Some err), w6, cr6)
      | ((res, None), w6, cr6) \<Rightarrow>
     (case callReconcile (ReconcileRoleBinding namespace)
             (\<lambda>s. reconcileRoleBinding env s cr6 namespace) w6 of
        ((res, Some err), w7, cr7) \<Rightarrow> ((res, Some err), w7, cr7)
      | ((res, None), w7, cr7) \<Rightarrow>
     (case callReconcile ReconcileCSIDriver
             (\<lambda>s. reconcileCSIDriver env s cr7) w7 of
        ((res, Some err), w8, cr8) \<Rightarrow> ((res, Some err), w8, cr8)
      | ((res, None), w8, cr8) \<Rightarrow>
     (case callReconcile (ReconcileSecurityContextConstraints namespace)
             (\<lambda>s. reconcileSecurityContextConstraints env s cr8 namespace) w8 of
        ((res, Some err), w9, cr9) \<Rightarrow> ((res, Some err), w9, cr9)
      | ((res, None), w9, cr9) \<Rightarrow>
     (case callReconcile (ReconcilePrometheusInfra namespace)
             (\<lambda>s. reconcilePrometheusInfra env s cr9 namespace) w9 of
        ((res, Some err), w10, cr10) \<Rightarrow> ((res, Some err), w10, cr10)
      | ((res, None), w10, cr10) \<Rightarrow>
          reconcileAvailability env w10 cr10 namespace res))))))))))"

text \<open>
  What \<open>Reconcile\<close> does: it returns a result and an error, or the goroutine panics.
\<close>

datatype outcome = Returned Result "error option" | Panicked

text \<open>The readiness gauge (lines 377 to 383).\<close>

definition setReadyGauge :: "('s, 'v) env \<Rightarrow> HostPathProvisioner \<Rightarrow> 's world \<Rightarrow> 's world" where
  "setReadyGauge env cr w =
     (if IsHppAvailable env cr then emit (SetReadyGaugeValue 1) w
      else if \<not> IsHppProgressing env cr then emit (SetReadyGaugeValue 0) w
      else w)"

text \<open>
  The deletes of the deletion branch that follow the cleanup wait (lines 394 to 418).
  Each failing step returns the empty result with its error; \<open>deleteAllRbac\<close> hands
  back its own result, which is empty too.
\<close>

definition deleteClusterObjects ::
  "('s, 'v) env \<Rightarrow> 's world \<Rightarrow> string \<Rightarrow> (Result \<times> error option) \<times> 's world" where
  "deleteClusterObjects env w namespace =
     (case callDelete (DeleteSCC (MultiPurposeHostPathProvisionerName env))
             (\<lambda>s. deleteSCC env s (MultiPurposeHostPathProvisionerName env)) w of
        (Some err, w3) \<Rightarrow> ((emptyResult, Some err), w3)
      | (None, w3) \<Rightarrow>
     (case callDelete (DeleteSCC (MultiPurposeHostPathProvisionerName env @ ''-csi''))
             (\<lambda>s. deleteSCC env s (MultiPurposeHostPathProvisionerName env @ ''-csi'')) w3 of
        (Some err, w4) \<Rightarrow> ((emptyResult, Some err), w4)
      | (None, w4) \<Rightarrow>
     (case callDelete (DeletePrometheusResources namespace)
             (\<lambda>s. deletePrometheusResources env s namespace) w4 of
        (Some err, w5) \<Rightarrow> ((emptyResult, Some err), w5)
      | (None, w5) \<Rightarrow>
     (case deleteAllRbac env w5 namespace of
        ((res, Some err), w6) \<Rightarrow> ((res, Some err), w6)
      | ((res, None), w6) \<Rightarrow>
     (case callDelete DeleteCSIDriver (\<lambda>s. deleteCSIDriver env s) w6 of
        (Some err, w7) \<Rightarrow> ((emptyResult, Some err), w7)
      | (None, w7) \<Rightarrow> ((emptyResult, None), w7))))))"

text \<open>
  The deletion branch of \<open>Reconcile\<close> (lines 387 to 428): the storage pool
  deployments are cleaned, the cleanup wait runs with the target count 0, the cluster
  objects are deleted, and last the finalizer is removed and the CR updated.
\<close>

definition reconcileDeletion ::
  "('s, 'v) env \<Rightarrow> 's world \<Rightarrow> HostPathProvisioner \<Rightarrow> string \<Rightarrow>
   (Result \<times> error option) \<times> 's world" where
  "reconcileDeletion env w cr namespace =
     (case callStatus (CleanDeployments namespace)
             (\<lambda>s. cleanDeployments env s cr namespace) w of
        (Some err, w1, cr1) \<Rightarrow> ((emptyResult, Some err), w1)
      | (None, w1, cr1) \<Rightarrow>
     (case reconcileCleanup env w1 cr1 namespace 0 of
        ((res, err), w2) \<Rightarrow>
          if err \<noteq> None \<or> RequeueAfter res = Second then ((res, err), w2)
          else
     (case deleteClusterObjects env w2 namespace of
        ((res, Some err), w7) \<Rightarrow> ((res, Some err), w7)
      | ((res, None), w7) \<Rightarrow>
     (case callUpdate env w7 (RemoveFinalizer cr1 hppFinalizer) of
        (Some err, w8, cr2) \<Rightarrow> ((emptyResult, Some err), w8)
      | (None, w8, cr2) \<Rightarrow> ((emptyResult, None), w8)))))"

text \<open>Marking a new install (lines 443 to 454) and an upgrade (lines 456 to 466).\<close>

definition markDeploying ::
  "('s, 'v) env \<Rightarrow> 's world \<Rightarrow> HostPathProvisioner \<Rightarrow>
   error option \<times> 's world \<times> HostPathProvisioner" where
  "markDeploying env w cr =
     (if isDeploying env cr then
        callUpdate env
          (emit (RecorderEvent ''Normal'' (deployStarted env) (deployStartedMessage env)) w)
          (MarkCrDeploying env cr (deployStarted env) (deployStartedMessage env))
      else (None, w, cr))"

definition markUpgrading ::
  "('s, 'v) env \<Rightarrow> bool \<Rightarrow> 's world \<Rightarrow> HostPathProvisioner \<Rightarrow>
   error option \<times> 's world \<times> HostPathProvisioner" where
  "markUpgrading env canUpgrade' w cr =
     (if canUpgrade' \<and> isUpgrading env cr then
        callUpdate env
          (emit (RecorderEvent ''Warning'' (upgradeStarted env)
                   (''Started upgrade to version '' @ TargetVersion cr)) w)
          (MarkCrUpgradeHealingDegraded env cr (upgradeStarted env)
             (''Started upgrade to version '' @ TargetVersion cr))
      else (None, w, cr))"

text \<open>The owned resources, then the status or the failure mark (lines 468 to 474).\<close>

definition reconcileResources ::
  "('s, 'v) env \<Rightarrow> 's world \<Rightarrow> HostPathProvisioner \<Rightarrow> string \<Rightarrow> string \<Rightarrow>
   (Result \<times> error option) \<times> 's world \<times> HostPathProvisioner" where
  "reconcileResources env w cr namespace versionString =
     (case reconcileUpdate env w cr namespace of
        ((res, None), w1, cr1) \<Rightarrow> reconcileStatus env w1 cr1 namespace versionString
      | ((res, Some err), w1, cr1) \<Rightarrow>
          ((res, Some err),
           emit (RecorderEvent ''Warning'' (reconcileFailed env)
                   (''Unable to successfully reconcile: '' @ errorText env err)) w1,
           MarkCrFailedHealing env cr1 (reconcileFailed env)
             (''Unable to successfully reconcile: '' @ errorText env err)))"

text \<open>
  The end of \<open>Reconcile\<close> (lines 476 to 485): the heartbeats of the snapshot are
  normalised, and the CR is written when it is not deeply equal to the snapshot.
\<close>

definition persistChanges ::
  "('s, 'v) env \<Rightarrow> HostPathProvisioner \<Rightarrow> 's world \<Rightarrow> HostPathProvisioner \<Rightarrow>
   Result \<Rightarrow> error option \<Rightarrow> outcome \<times> 's world" where
  "persistChanges env currentCopy w cr res err =
     (case ignoreHeartBeatTimestamp currentCopy cr of
        None \<Rightarrow> (Panicked, w)
      | Some currentCopy' \<Rightarrow>
          if currentCopy' \<noteq> cr then
            (case callUpdate env w cr of
               (updateErr, w1, cr1) \<Rightarrow>
                 (Returned res (if updateErr \<noteq> None then updateErr else err), w1))
          else (Returned res err, w))"

text \<open>The normal branch of \<open>Reconcile\<close> (lines 430 to 485).\<close>

definition reconcileNormal ::
  "('s, 'v) env \<Rightarrow> 's world \<Rightarrow> HostPathProvisioner \<Rightarrow> string \<Rightarrow> string \<Rightarrow>
   outcome \<times> 's world" where
  "reconcileNormal env w cr namespace versionString =
     (let currentCopy = cr in
      case addFinalizer env w cr of
        (Some err, w1, cr1) \<Rightarrow> (Returned emptyResult (Some err), w1)
      | (None, w1, cr1) \<Rightarrow>
          (let cr2 = cr1\<lparr>OperatorVersion := versionString, TargetVersion := versionString\<rparr>
           in case canUpgrade (GetVersionFromString env) (Compare env) (SemverString env)
                     (ObservedVersion cr2) versionString of
                (canUpgrade', Some err) \<Rightarrow> (Returned emptyResult (Some err), w1)
              | (canUpgrade', None) \<Rightarrow>
                  (case markDeploying env w1 cr2 of
                     (Some err, w2, cr3) \<Rightarrow> (Returned emptyResult (Some err), w2)
                   | (None, w2, cr3) \<Rightarrow>
                       (case markUpgrading env canUpgrade' w2 cr3 of
                          (Some err, w3, cr4) \<Rightarrow> (Returned emptyResult (Some err), w3)
                        | (None, w3, cr4) \<Rightarrow>
                            (case reconcileResources env w3 cr4 namespace versionString of
                               ((res, err), w4, cr5) \<Rightarrow>
                                 persistChanges env currentCopy w4 cr5 res err)))))"

definition Reconcile ::
  "('s, 'v) env \<Rightarrow> 's world \<Rightarrow> string \<times> string \<Rightarrow> outcome \<times> 's world" where
  "Reconcile env w request =
     (case getHppList env (store w) of
        Inl err \<Rightarrow> (Returned emptyResult (Some err), w)
      | Inr hppList \<Rightarrow>
          if length hppList > 1
          then (Returned emptyResult (Some (MultipleHPPs (length hppList))), w)
          else
            (case VersionStringFunc env of
               Inl err \<Rightarrow> (Returned emptyResult (Some err), w)
             | Inr versionString \<Rightarrow>
                 (case clientGet env (store w) request of
                    Inl err \<Rightarrow>
                      if IsNotFound err then (Returned emptyResult None, w)
                      else (Returned emptyResult (Some err), w)
                  | Inr cr \<Rightarrow>
                      (let w1 = setReadyGauge env cr w;
                           namespace = watchNamespaceFunc env
                       in if DeletionTimestamp cr \<noteq> None then
                            (case reconcileDeletion env w1 cr namespace of
                               ((res, err), w2) \<Rightarrow> (Returned res err, w2))
                          else reconcileNormal env w1 cr namespace versionString))))"

section \<open>A small cluster to run the reconciler on\<close>

text \<open>
  A store and collaborators in the manner of a fake client, to evaluate the reconciler
  on concrete inputs: the CRs, the two DaemonSets, the storage pool deployments, what
  the query for the cleanup jobs answers, and the calls that the cluster refuses. Conditions are
  set as \<open>conditions.SetStatusCondition\<close> sets them, at a fixed instant. An update that
  succeeds stores the CR under a new resource version, one digit longer than the old one,
  and hands it back, as the client writes the response of the server into the object.
\<close>

record cluster =
  hpps :: "HostPathProvisioner list"
  legacyDaemonSet :: "DaemonSet option"
  csiDaemonSet :: "DaemonSet option"
  poolDeployments :: "string list"
  cleanupDone :: "error + bool"
  refused :: "Call list"

definition refuse :: "Call \<Rightarrow> cluster \<Rightarrow> error option" where
  "refuse c s = (if c \<in> set (refused s) then Some (Failure ''refused'') else None)"

fun setCondition :: "nat \<Rightarrow> Condition list \<Rightarrow> Condition \<Rightarrow> Condition list" where
  "setCondition now [] new = [new\<lparr>LastTransitionTime := now, LastHeartbeatTime := now\<rparr>]"
| "setCondition now (c # cs) new =
     (if Type c = Type new
      then c\<lparr>Status := Status new, Reason := Reason new, Message := Message new,
              LastTransitionTime := (if Status c \<noteq> Status new then now else LastTransitionTime c),
              LastHeartbeatTime := now\<rparr> # cs
      else c # setCondition now cs new)"

definition markConditions ::
  "string \<Rightarrow> string \<Rightarrow> string \<Rightarrow> HostPathProvisioner \<Rightarrow> string \<Rightarrow> string \<Rightarrow> HostPathProvisioner" where
  "markConditions available progressing degraded cr reason message =
     cr\<lparr>Conditions := Some
       (setCondition 100
         (setCondition 100
           (setCondition 100 (elems (Conditions cr))
             \<lparr>Type = ''Available'', Status = available, Reason = reason, Message = message,
              LastTransitionTime = 0, LastHeartbeatTime = 0\<rparr>)
           \<lparr>Type = ''Progressing'', Status = progressing, Reason = reason, Message = message,
            LastTransitionTime = 0, LastHeartbeatTime = 0\<rparr>)
         \<lparr>Type = ''Degraded'', Status = degraded, Reason = reason, Message = message,
          LastTransitionTime = 0, LastHeartbeatTime = 0\<rparr>)\<rparr>"

definition conditionTrue :: "string \<Rightarrow> HostPathProvisioner \<Rightarrow> bool" where
  "conditionTrue conditionType cr =
     (case FindStatusCondition (elems (Conditions cr)) conditionType of
        None \<Rightarrow> False
      | Some c \<Rightarrow> Status c = ''True'')"

definition applyKind ::
  "Call \<Rightarrow> cluster \<Rightarrow> HostPathProvisioner \<Rightarrow> (Result \<times> error option) \<times> cluster \<times> HostPathProvisioner" where
  "applyKind c s cr = ((emptyResult, refuse c s), s, cr)"

definition sampleEnv :: "(cluster, nat \<times> nat \<times> nat) env" where
  "sampleEnv = \<lparr>
     clientList = (\<lambda>s. Inr (hpps s)),
     clientGet = (\<lambda>s request.
        case find (\<lambda>c. Name c = snd request) (hpps s) of
          None \<Rightarrow> Inl (NotFound (snd request))
        | Some c \<Rightarrow> Inr c),
     clientGetDaemonSet = (\<lambda>s name namespace.
        case (if name = ''hostpath-provisioner'' then legacyDaemonSet s
              else if name = ''hostpath-provisioner-csi'' then csiDaemonSet s else None) of
          None \<Rightarrow> Inl (NotFound name)
        | Some d \<Rightarrow> Inr d),
     clientUpdate = (\<lambda>s cr.
        case refuse (ClientUpdate cr) s of
          Some err \<Rightarrow> (Some err, s, cr)
        | None \<Rightarrow>
            (let stored = cr\<lparr>ResourceVersion := ResourceVersion cr @ ''0''\<rparr>
             in (None,
                 s\<lparr>hpps := map (\<lambda>c. if Name c = Name cr then stored else c) (hpps s)\<rparr>,
                 stored))),
     VersionStringFunc = Inr ''1.2.0'',
     GetVersionFromString = parseDotted,
     Compare = compareDotted,
     SemverString = showDotted,
     errorText = (\<lambda>err. case err of
          NotFound name \<Rightarrow> name @ '' not found''
        | MultipleHPPs n \<Rightarrow> ''there should be a single hostpath provisioner, '' @ showNat n @ '' items found''
        | Downgraded current target \<Rightarrow>
            ''operator downgraded from '' @ current @ '' to '' @ target @ '', will not reconcile''
        | Failure message \<Rightarrow> message),
     watchNamespaceFunc = ''hpp'',
     MultiPurposeHostPathProvisionerName = ''hostpath-provisioner'',
     ProvisionerServiceAccountName = ''hostpath-provisioner-admin'',
     ProvisionerServiceAccountNameCsi = ''hostpath-provisioner-admin-csi'',
     deployStarted = ''DeployStarted'',
     deployStartedMessage = ''Started Deployment'',
     upgradeStarted = ''UpgradeStarted'',
     reconcileFailed = ''Reconcile Failed'',
     provisionerHealthy = ''ProvisionerHealthy'',
     provisionerHealthyMessage = ''Provisioner Healthy and running'',
     IsHppAvailable = conditionTrue ''Available'',
     IsHppProgressing = conditionTrue ''Progressing'',
     isDeploying = (\<lambda>cr. ObservedVersion cr = []),
     isUpgrading = (\<lambda>cr. ObservedVersion cr \<noteq> [] \<and> ObservedVersion cr \<noteq> TargetVersion cr),
     MarkCrDeploying = markConditions ''False'' ''True'' ''False'',
     MarkCrUpgradeHealingDegraded = markConditions ''False'' ''True'' ''True'',
     MarkCrFailedHealing = markConditions ''False'' ''True'' ''True'',
     MarkCrHealthyMessage = markConditions ''True'' ''False'' ''False'',
     MarkCrFailed = markConditions ''False'' ''False'' ''True'',
     cleanDeployments = (\<lambda>s cr namespace. (refuse (CleanDeployments namespace) s, s, cr)),
     currentStoragePoolDeployments = (\<lambda>s cr namespace. Inr (poolDeployments s)),
     hasCleanUpFinished = (\<lambda>s namespace. cleanupDone s),
     removeCleanUpJobs = (\<lambda>s namespace. (refuse (RemoveCleanUpJobs namespace) s, s)),
     deleteSCC = (\<lambda>s name. (refuse (DeleteSCC name) s, s)),
     deletePrometheusResources = (\<lambda>s namespace. (refuse (DeletePrometheusResources namespace) s, s)),
     deleteClusterRoleBindingObject = (\<lambda>s name. (refuse (DeleteClusterRoleBindingObject name) s, s)),
     deleteClusterRoleObject = (\<lambda>s name. (refuse (DeleteClusterRoleObject name) s, s)),
     deleteRoleBindingObject = (\<lambda>s name namespace. (refuse (DeleteRoleBindingObject name namespace) s, s)),
     deleteRoleObject = (\<lambda>s name namespace. (refuse (DeleteRoleObject name namespace) s, s)),
     deleteCSIDriver = (\<lambda>s. (refuse DeleteCSIDriver s, s)),
     reconcileDaemonSet = (\<lambda>s cr namespace. applyKind (ReconcileDaemonSet namespace) s cr),
     reconcileStoragePools = (\<lambda>s cr namespace. applyKind (ReconcileStoragePools namespace) s cr),
     reconcileServiceAccount = (\<lambda>s cr namespace. applyKind (ReconcileServiceAccount namespace) s cr),
     reconcileClusterRole = (\<lambda>s cr. applyKind ReconcileClusterRole s cr),
     reconcileClusterRoleBinding = (\<lambda>s cr namespace. applyKind (ReconcileClusterRoleBinding namespace) s cr),
     reconcileRole = (\<lambda>s cr namespace. applyKind (ReconcileRole namespace) s cr),
     reconcileRoleBinding = (\<lambda>s cr namespace. applyKind (ReconcileRoleBinding namespace) s cr),
     reconcileCSIDriver = (\<lambda>s cr. applyKind ReconcileCSIDriver s cr),
     reconcileSecurityContextConstraints =
        (\<lambda>s cr namespace. applyKind (ReconcileSecurityContextConstraints namespace) s cr),
     reconcilePrometheusInfra = (\<lambda>s cr namespace. applyKind (ReconcilePrometheusInfra namespace) s cr),
     reconcileStoragePoolStatus =
        (\<lambda>s cr namespace. (refuse (ReconcileStoragePoolStatus namespace) s, s, cr))
   \<rparr>"

text \<open>
  A driver-only CR at version 1.2.0 that carries the finalizer, and a cluster that holds
  it, with a ready CSI DaemonSet, no storage pool deployment and no cleanup job running.
\<close>

definition sampleCR :: HostPathProvisioner where
  "sampleCR = \<lparr>
     Name = ''hpp'', ResourceVersion = ''7'', DeletionTimestamp = None,
     Finalizers = Some [hppFinalizer], PathConfig = None, FeatureGates = None,
     Conditions = None, OperatorVersion = ''1.2.0'', TargetVersion = ''1.2.0'',
     ObservedVersion = ''1.2.0''\<rparr>"

definition sampleCluster :: cluster where
  "sampleCluster = \<lparr>
     hpps = [sampleCR], legacyDaemonSet = None,
     csiDaemonSet = Some \<lparr>NumberReady = 3, DesiredNumberScheduled = 3\<rparr>,
     poolDeployments = [], cleanupDone = Inr True, refused = []\<rparr>"

definition sampleWorld :: "cluster \<Rightarrow> cluster world" where
  "sampleWorld s = \<lparr>store = s, trace = []\<rparr>"

section \<open>Notions used to state the properties\<close>


text \<open>Calls that all returned nil, as they stand in the trace.\<close>

definition succeeded :: "Call list \<Rightarrow> (Call \<times> error option) list" where
  "succeeded cs = map (\<lambda>c. (c, None)) cs"

text \<open>The owned-resource kinds in the order of the specification.\<close>

definition ownedKindsInOrder :: "string \<Rightarrow> Call list" where
  "ownedKindsInOrder namespace =
     [ReconcileDaemonSet namespace, ReconcileStoragePools namespace,
      ReconcileServiceAccount namespace, ReconcileClusterRole,
      ReconcileClusterRoleBinding namespace, ReconcileRole namespace,
      ReconcileRoleBinding namespace, ReconcileCSIDriver,
      ReconcileSecurityContextConstraints namespace, ReconcilePrometheusInfra namespace]"

text \<open>
  Applying a list of owned-resource kinds one after the other, stopping at the first
  error; the result of the last kind applied is carried along.
\<close>

fun reconcileKind ::
  "('s, 'v) env \<Rightarrow> Call \<Rightarrow> 's world \<Rightarrow> HostPathProvisioner \<Rightarrow>
   (Result \<times> error option) \<times> 's world \<times> HostPathProvisioner" where
  "reconcileKind env (ReconcileDaemonSet ns) w cr =
     callReconcile (ReconcileDaemonSet ns) (\<lambda>s. reconcileDaemonSet env s cr ns) w"
| "reconcileKind env (ReconcileStoragePools ns) w cr =
     callReconcile (ReconcileStoragePools ns) (\<lambda>s. reconcileStoragePools env s cr ns) w"
| "reconcileKind env (ReconcileServiceAccount ns) w cr =
     callReconcile (ReconcileServiceAccount ns) (\<lambda>s. reconcileServiceAccount env s cr ns) w"
| "reconcileKind env ReconcileClusterRole w cr =
     callReconcile ReconcileClusterRole (\<lambda>s. reconcileClusterRole env s cr) w"
| "reconcileKind env (ReconcileClusterRoleBinding ns) w cr =
     callReconcile (ReconcileClusterRoleBinding ns)
       (\<lambda>s. reconcileClusterRoleBinding env s cr ns) w"
| "reconcileKind env (ReconcileRole ns) w cr =
     callReconcile (ReconcileRole ns) (\<lambda>s. reconcileRole env s cr ns) w"
| "reconcileKind env (ReconcileRoleBinding ns) w cr =
     callReconcile (ReconcileRoleBinding ns) (\<lambda>s. reconcileRoleBinding env s cr ns) w"
| "reconcileKind env ReconcileCSIDriver w cr =
     callReconcile ReconcileCSIDriver (\<lambda>s. reconcileCSIDriver env s cr) w"
| "reconcileKind env (ReconcileSecurityContextConstraints ns) w cr =
     callReconcile (ReconcileSecurityContextConstraints ns)
       (\<lambda>s. reconcileSecurityContextConstraints env s cr ns) w"
| "reconcileKind env (ReconcilePrometheusInfra ns) w cr =
     callReconcile (ReconcilePrometheusInfra ns) (\<lambda>s. reconcilePrometheusInfra env s cr ns) w"
| "reconcileKind env c w cr = callReconcile c (\<lambda>s. ((emptyResult, None), s, cr)) w"

fun reconcileKinds ::
  "('s, 'v) env \<Rightarrow> Call list \<Rightarrow> Result \<Rightarrow> 's world \<Rightarrow> HostPathProvisioner \<Rightarrow>
   (Result \<times> error option) \<times> 's world \<times> HostPathProvisioner" where
  "reconcileKinds env [] res w cr = ((res, None), w, cr)"
| "reconcileKinds env (c # cs) res w cr =
     (case reconcileKind env c w cr of
        ((res', Some err), w', cr') \<Rightarrow> ((res', Some err), w', cr')
      | ((res', None), w', cr') \<Rightarrow> reconcileKinds env cs res' w' cr')"

text \<open>
  The delete steps of the deletion branch that follow the cleanup wait, in the order of
  the specification: the two security policies, the monitoring infra, four RBAC objects
  for each of the three names, and the driver registration.
\<close>

definition rbacCalls :: "string \<Rightarrow> string \<Rightarrow> Call list" where
  "rbacCalls namespace name =
     [DeleteClusterRoleBindingObject name, DeleteClusterRoleObject name,
      DeleteRoleBindingObject name namespace, DeleteRoleObject name namespace]"

definition deleteStepsInOrder :: "('s, 'v) env \<Rightarrow> string \<Rightarrow> Call list" where
  "deleteStepsInOrder env namespace =
     [DeleteSCC (MultiPurposeHostPathProvisionerName env),
      DeleteSCC (MultiPurposeHostPathProvisionerName env @ ''-csi''),
      DeletePrometheusResources namespace]
     @ rbacCalls namespace (ProvisionerServiceAccountName env)
     @ rbacCalls namespace (ProvisionerServiceAccountNameCsi env)
     @ rbacCalls namespace (MultiPurposeHostPathProvisionerName env)
     @ [DeleteCSIDriver]"

text \<open>Making a list of delete calls one after the other, stopping at the first error.\<close>

fun deleteCall :: "('s, 'v) env \<Rightarrow> Call \<Rightarrow> 's \<Rightarrow> error option \<times> 's" where
  "deleteCall env (RemoveCleanUpJobs ns) s = removeCleanUpJobs env s ns"
| "deleteCall env (DeleteSCC name) s = deleteSCC env s name"
| "deleteCall env (DeletePrometheusResources ns) s = deletePrometheusResources env s ns"
| "deleteCall env (DeleteClusterRoleBindingObject name) s = deleteClusterRoleBindingObject env s name"
| "deleteCall env (DeleteClusterRoleObject name) s = deleteClusterRoleObject env s name"
| "deleteCall env (DeleteRoleBindingObject name ns) s = deleteRoleBindingObject env s name ns"
| "deleteCall env (DeleteRoleObject name ns) s = deleteRoleObject env s name ns"
| "deleteCall env DeleteCSIDriver s = deleteCSIDriver env s"
| "deleteCall env c s = (None, s)"

fun deleteCalls :: "('s, 'v) env \<Rightarrow> Call list \<Rightarrow> 's world \<Rightarrow> error option \<times> 's world" where
  "deleteCalls env [] w = (None, w)"
| "deleteCalls env (c # cs) w =
     (case callDelete c (deleteCall env c) w of
        (Some err, w') \<Rightarrow> (Some err, w')
      | (None, w') \<Rightarrow> deleteCalls env cs w')"

text \<open>The calls of a trace that update the CR.\<close>

fun isClientUpdate :: "Call \<Rightarrow> bool" where
  "isClientUpdate (ClientUpdate cr) = True"
| "isClientUpdate c = False"

definition updatesIn :: "(Call \<times> error option) list \<Rightarrow> (Call \<times> error option) list" where
  "updatesIn calls = filter (\<lambda>x. isClientUpdate (fst x)) calls"

text \<open>
  A DaemonSet that can be read and satisfies the readiness predicate, and the workloads
  that a CR requires to be ready: in legacy mode the legacy DaemonSet and the CSI
  DaemonSet, in driver-only mode the CSI DaemonSet alone.
\<close>

definition daemonSetReadyIn :: "('s, 'v) env \<Rightarrow> 's \<Rightarrow> string \<Rightarrow> string \<Rightarrow> bool" where
  "daemonSetReadyIn env s name namespace =
     (case clientGetDaemonSet env s name namespace of
        Inl err \<Rightarrow> False
      | Inr daemonSet \<Rightarrow> checkDaemonSetReady daemonSet)"

definition workloadsReady ::
  "('s, 'v) env \<Rightarrow> 's \<Rightarrow> HostPathProvisioner \<Rightarrow> string \<Rightarrow> bool" where
  "workloadsReady env s cr namespace =
     (if isLegacy cr
      then daemonSetReadyIn env s (MultiPurposeHostPathProvisionerName env) namespace \<and>
           daemonSetReadyIn env s (MultiPurposeHostPathProvisionerName env @ ''-csi'') namespace
      else daemonSetReadyIn env s (MultiPurposeHostPathProvisionerName env @ ''-csi'') namespace)"



text \<open>The updates of the CR in a trace that were written: those that returned nil.\<close>

definition writtenUpdates :: "(Call \<times> error option) list \<Rightarrow> (Call \<times> error option) list" where
  "writtenUpdates calls = filter (\<lambda>x. isClientUpdate (fst x) \<and> snd x = None) calls"



text \<open>
  From one point of a run to a later one: the resource version of the CR in memory is
  no older, and it is newer when an update was written in between.
\<close>

definition advances ::
  "(string \<Rightarrow> nat) \<Rightarrow> 's world \<Rightarrow> HostPathProvisioner \<Rightarrow> 's world \<Rightarrow> HostPathProvisioner \<Rightarrow> bool" where
  "advances rank w c w' c' =
     (rank (ResourceVersion c) \<le> rank (ResourceVersion c') \<and>
      (writtenUpdates (trace w') = writtenUpdates (trace w) \<or>
       rank (ResourceVersion c) < rank (ResourceVersion c')))"



section \<open>Theorems\<close>

lemmas sample_defs =
  sampleEnv_def sampleWorld_def sampleCluster_def sampleCR_def refuse_def applyKind_def
  markConditions_def conditionTrue_def hppFinalizer_def emptyResult_def Second_def
  emptyDaemonSet_def

lemmas call_defs = emit_def callDelete_def callStatus_def callReconcile_def callUpdate_def

subsection \<open>The version gate\<close>

text \<open>
  C1, as the code has it. For all version strings, \<open>canUpgrade\<close> returns (false, nil)
  when observed is the empty string, and (false, nil) when observed equals target.
  When observed is not empty and differs from target, it returns an error when both parse
  and target is strictly older than observed, (true, nil) when both parse and target is
  strictly newer, and (true, nil) when either one fails to parse. The parser, the
  comparison and the printer are arbitrary.
\<close>

theorem canUpgrade_cases:
  "canUpgrade parse compare toString [] target = (False, None) \<and>
   canUpgrade parse compare toString observed observed = (False, None) \<and>
   (observed \<noteq> [] \<and> observed \<noteq> target \<and> parse target = Inr tv \<and> parse observed = Inr ov
      \<and> compare tv ov < 0
      \<longrightarrow> canUpgrade parse compare toString observed target =
            (False, Some (Downgraded (toString ov) (toString tv)))) \<and>
   (observed \<noteq> [] \<and> observed \<noteq> target \<and> parse target = Inr tv \<and> parse observed = Inr ov
      \<and> 0 < compare tv ov
      \<longrightarrow> canUpgrade parse compare toString observed target = (True, None)) \<and>
   (observed \<noteq> [] \<and> observed \<noteq> target \<and> (isl (parse observed) \<or> isl (parse target))
      \<longrightarrow> canUpgrade parse compare toString observed target = (True, None))"
  by (auto simp: canUpgrade_def split: sum.splits)

text \<open>
  The examples of the specification: from 1.2.0 to 1.1.0 is refused, from 1.1.0 to 1.2.0
  is an upgrade, and a target that is no version does not block.
\<close>

theorem canUpgrade_cases_witness:
  "canUpgrade parseDotted compareDotted showDotted ''1.2.0'' ''1.1.0''
     = (False, Some (Downgraded ''1.2.0'' ''1.1.0'')) \<and>
   canUpgrade parseDotted compareDotted showDotted ''1.1.0'' ''1.2.0'' = (True, None) \<and>
   canUpgrade parseDotted compareDotted showDotted ''1.1.0'' ''latest'' = (True, None)"
proof -
  have p1: "parseDotted ''1.2.0'' = Inr (1, 2, 0)"
    and p2: "parseDotted ''1.1.0'' = Inr (1, 1, 0)"
    and p3: "isl (parseDotted ''latest'')"
    by (simp_all add: parseDotted_def readNumber_def digitVal_def)
  have c1: "compareDotted (1, 1, 0) (1, 2, 0) < 0"
    and c2: "0 < compareDotted (1, 2, 0) (1, 1, 0)"
    by (simp_all add: compareNat_def)
  have s: "showDotted (1, 2, 0) = ''1.2.0''" "showDotted (1, 1, 0) = ''1.1.0''"
    by simp_all
  from canUpgrade_cases [where parse = parseDotted and compare = compareDotted
      and toString = showDotted and observed = "''1.2.0''" and target = "''1.1.0''"
      and tv = "(1, 1, 0)" and ov = "(1, 2, 0)"]
    canUpgrade_cases [where parse = parseDotted and compare = compareDotted
      and toString = showDotted and observed = "''1.1.0''" and target = "''1.2.0''"
      and tv = "(1, 2, 0)" and ov = "(1, 1, 0)"]
    canUpgrade_cases [where parse = parseDotted and compare = compareDotted
      and toString = showDotted and observed = "''1.1.0''" and target = "''latest''"
      and tv = "(0, 0, 0)" and ov = "(0, 0, 0)"]
    p1 p2 p3 c1 c2 s
  show ?thesis by simp
qed

text \<open>
  Without the guard on the observed version the last case fails: with an empty observed
  version and the target 1.0.0 the strings differ and the empty string is no version, yet
  the first test of the function answers (false, nil), not (true, nil).
\<close>

theorem canUpgrade_empty_observed_counterexample:
  "[] \<noteq> ''1.0.0'' \<and> isl (parseDotted []) \<and>
   canUpgrade parseDotted compareDotted showDotted [] ''1.0.0'' = (False, None) \<and>
   canUpgrade parseDotted compareDotted showDotted [] ''1.0.0'' \<noteq> (True, None)"
  by (simp add: canUpgrade_def parseDotted_def readNumber_def)

subsection \<open>The singleton check\<close>

text \<open>
  C3. For every cluster state in which listing the CR kind returns two or more instances,
  \<open>Reconcile\<close> returns a non-nil error with the empty result, and the world after the
  run is the world before it: the store is unchanged and no call has been added to the
  trace, so nothing was created, updated or deleted.
\<close>

theorem Reconcile_multiple_instances:
  "clientList env (store w) = Inr hppList \<Longrightarrow> 2 \<le> length hppList \<Longrightarrow>
   Reconcile env w request = (Returned emptyResult (Some (MultipleHPPs (length hppList))), w)"
  by (simp add: Reconcile_def getHppList_def)

theorem Reconcile_multiple_instances_witness:
  "Reconcile sampleEnv
     (sampleWorld (sampleCluster\<lparr>hpps := [sampleCR, sampleCR\<lparr>Name := ''second''\<rparr>]\<rparr>))
     ([], ''hpp'')
   = (Returned emptyResult (Some (MultipleHPPs 2)),
      sampleWorld (sampleCluster\<lparr>hpps := [sampleCR, sampleCR\<lparr>Name := ''second''\<rparr>]\<rparr>))"
proof -
  let ?w = "sampleWorld (sampleCluster\<lparr>hpps := [sampleCR, sampleCR\<lparr>Name := ''second''\<rparr>]\<rparr>)"
  have l: "clientList sampleEnv (store ?w) = Inr [sampleCR, sampleCR\<lparr>Name := ''second''\<rparr>]"
    by (simp add: sampleEnv_def sampleWorld_def sampleCluster_def)
  have n: "2 \<le> length [sampleCR, sampleCR\<lparr>Name := ''second''\<rparr>]" by simp
  from Reconcile_multiple_instances [OF l n, of "([], ''hpp'')"] show ?thesis by simp
qed

subsection \<open>The degraded check\<close>

text \<open>
  C5. For every CR that is in the Deploying state, the degraded check leaves the CR as it
  is, also when a required daemon workload is unready; the CR is marked Degraded
  (\<open>MarkCrFailed\<close>) exactly when the check reports degraded without an error and the CR
  is not Deploying.
\<close>

theorem checkDegraded_marks:
  "snd (checkDegraded env w cr namespace) =
     (if fst (checkDegraded env w cr namespace) = (True, None) \<and> \<not> isDeploying env cr
      then MarkCrFailed env cr ''Degraded'' ''CR is deployed but DaemonSets are not ready''
      else cr) \<and>
   (isDeploying env cr \<longrightarrow> snd (checkDegraded env w cr namespace) = cr)"
  by (auto simp: checkDegraded_def Let_def split: sum.splits)

text \<open>
  A CR with no observed version while the CSI DaemonSet has no ready pod: the check
  reports degraded and the CR is untouched.
\<close>

theorem checkDegraded_marks_witness:
  "isDeploying sampleEnv (sampleCR\<lparr>ObservedVersion := []\<rparr>) \<and>
   checkDegraded sampleEnv
     (sampleWorld (sampleCluster\<lparr>csiDaemonSet :=
        Some \<lparr>NumberReady = 0, DesiredNumberScheduled = 2\<rparr>\<rparr>))
     (sampleCR\<lparr>ObservedVersion := []\<rparr>) ''hpp''
   = ((True, None), sampleCR\<lparr>ObservedVersion := []\<rparr>)"
proof -
  let ?w = "sampleWorld (sampleCluster\<lparr>csiDaemonSet :=
        Some \<lparr>NumberReady = 0, DesiredNumberScheduled = 2\<rparr>\<rparr>)"
  let ?cr = "sampleCR\<lparr>ObservedVersion := []\<rparr>"
  have d: "isDeploying sampleEnv ?cr" by (simp add: sampleEnv_def)
  have f: "fst (checkDegraded sampleEnv ?w ?cr ''hpp'') = (True, None)"
    by (simp add: checkDegraded_def getLegacyDaemonSet_def getCsiDaemonSet_def isLegacy_def
        checkDaemonSetReady_def checkApplicationAvailable_def sample_defs)
  from checkDegraded_marks [of sampleEnv ?w ?cr "''hpp''"] d
  have "snd (checkDegraded sampleEnv ?w ?cr ''hpp'') = ?cr" by simp
  with d f show ?thesis by (simp add: prod_eq_iff)
qed

subsection \<open>Heartbeat normalisation\<close>

lemma FindStatusCondition_mem:
  "t \<in> Type ` set cs \<longleftrightarrow> FindStatusCondition cs t \<noteq> None"
  by (induction cs) auto

lemma ignoreHeartBeatLoop_None:
  "ignoreHeartBeatLoop crs cs = None \<longleftrightarrow> \<not> Type ` set cs \<subseteq> Type ` set crs"
proof (induction cs)
  case Nil
  show ?case by simp
next
  case (Cons c cs)
  show ?case
  proof (cases "FindStatusCondition crs (Type c)")
    case None
    then have "Type c \<notin> Type ` set crs" by (simp add: FindStatusCondition_mem)
    with None show ?thesis by simp
  next
    case (Some crCond)
    then have mem: "Type c \<in> Type ` set crs" by (simp add: FindStatusCondition_mem)
    have "ignoreHeartBeatLoop crs (c # cs) = None \<longleftrightarrow> ignoreHeartBeatLoop crs cs = None"
      using Some by (cases "ignoreHeartBeatLoop crs cs") simp_all
    with Cons mem show ?thesis by simp
  qed
qed

text \<open>
  C10. \<open>ignoreHeartBeatTimestamp\<close> dereferences the result of looking each condition
  type of the snapshot up in the conditions of the current CR, with no nil guard: it
  panics exactly when some condition type of the snapshot does not occur in the condition
  list of the current CR, and returns otherwise.
\<close>

theorem ignoreHeartBeatTimestamp_panics_iff:
  "ignoreHeartBeatTimestamp currentCopy cr = None \<longleftrightarrow>
   \<not> set (map Type (elems (Conditions currentCopy))) \<subseteq> set (map Type (elems (Conditions cr)))"
proof (cases "Conditions currentCopy")
  case None
  then show ?thesis by (simp add: ignoreHeartBeatTimestamp_def)
next
  case (Some conds)
  then have "ignoreHeartBeatTimestamp currentCopy cr = None \<longleftrightarrow>
      ignoreHeartBeatLoop (elems (Conditions cr)) conds = None"
    by (simp add: ignoreHeartBeatTimestamp_def split: option.splits)
  with Some show ?thesis by (simp add: ignoreHeartBeatLoop_None)
qed

text \<open>
  A snapshot with a Degraded condition against a CR that only has an Available one: the
  lookup yields nil and the call panics.
\<close>

theorem ignoreHeartBeatTimestamp_panics_iff_witness:
  "ignoreHeartBeatTimestamp
     (sampleCR\<lparr>Conditions := Some [\<lparr>Type = ''Degraded'', Status = ''True'', Reason = ''r'',
        Message = ''m'', LastTransitionTime = 1, LastHeartbeatTime = 1\<rparr>]\<rparr>)
     (sampleCR\<lparr>Conditions := Some [\<lparr>Type = ''Available'', Status = ''True'', Reason = ''r'',
        Message = ''m'', LastTransitionTime = 1, LastHeartbeatTime = 2\<rparr>]\<rparr>)
   = None"
  using ignoreHeartBeatTimestamp_panics_iff [of
     "sampleCR\<lparr>Conditions := Some [\<lparr>Type = ''Degraded'', Status = ''True'', Reason = ''r'',
        Message = ''m'', LastTransitionTime = 1, LastHeartbeatTime = 1\<rparr>]\<rparr>"
     "sampleCR\<lparr>Conditions := Some [\<lparr>Type = ''Available'', Status = ''True'', Reason = ''r'',
        Message = ''m'', LastTransitionTime = 1, LastHeartbeatTime = 2\<rparr>]\<rparr>"]
  by simp

subsection \<open>Readiness\<close>

text \<open>
  C4. For every daemon workload status, the readiness predicate holds if and only if
  NumberReady is greater than 0 and NumberReady is at least DesiredNumberScheduled (both
  read as the signed 32-bit integers they are); in particular a workload with
  NumberReady = 0 and DesiredNumberScheduled = 0 is not ready.
\<close>

theorem checkDaemonSetReady_iff:
  "(checkDaemonSetReady daemonSet \<longleftrightarrow>
      0 < sint (NumberReady daemonSet) \<and>
      sint (DesiredNumberScheduled daemonSet) \<le> sint (NumberReady daemonSet)) \<and>
   \<not> checkDaemonSetReady \<lparr>NumberReady = 0, DesiredNumberScheduled = 0\<rparr>"
  by (simp add: checkDaemonSetReady_def checkApplicationAvailable_def
      word_sless_alt word_sle_eq)

subsection \<open>Heartbeat suppression at the end of a run\<close>





subsection \<open>Availability by mode\<close>

text \<open>
  C9. The degraded check reports not degraded, and \<open>reconcileUpdate\<close> marks the CR
  healthy, exactly when the workloads that the CR requires are ready: in legacy mode the
  legacy DaemonSet and the CSI DaemonSet both have to satisfy the readiness predicate, in
  driver-only mode the CSI DaemonSet alone, and the legacy DaemonSet is not looked at.
\<close>

theorem availability_by_mode:
  "(fst (fst (checkDegraded env w cr namespace)) \<longleftrightarrow> \<not> workloadsReady env (store w) cr namespace) \<and>
   snd (snd (reconcileAvailability env w cr namespace res)) =
     (if workloadsReady env (store w) cr namespace
      then MarkCrHealthyMessage env cr ''Complete'' ''Application Available'' else cr)"
  by (auto simp: checkDegraded_def reconcileAvailability_def getLegacyDaemonSet_def
      getCsiDaemonSet_def workloadsReady_def daemonSetReadyIn_def Let_def
      split: prod.splits sum.splits)


text \<open>
  A cluster whose legacy DaemonSet exists and has no ready pod while the CSI DaemonSet is
  ready: a driver-only CR is not degraded and is marked healthy, a legacy CR is degraded
  and is not marked.
\<close>

theorem availability_by_mode_witness:
  "\<not> isLegacy sampleCR \<and>
   workloadsReady sampleEnv
     (sampleCluster\<lparr>legacyDaemonSet := Some \<lparr>NumberReady = 0, DesiredNumberScheduled = 3\<rparr>\<rparr>)
     sampleCR ''hpp'' \<and>
   fst (checkDegraded sampleEnv
     (sampleWorld (sampleCluster\<lparr>legacyDaemonSet :=
        Some \<lparr>NumberReady = 0, DesiredNumberScheduled = 3\<rparr>\<rparr>)) sampleCR ''hpp'')
     = (False, None) \<and>
   snd (snd (reconcileAvailability sampleEnv
     (sampleWorld (sampleCluster\<lparr>legacyDaemonSet :=
        Some \<lparr>NumberReady = 0, DesiredNumberScheduled = 3\<rparr>\<rparr>)) sampleCR ''hpp'' emptyResult))
     = MarkCrHealthyMessage sampleEnv sampleCR ''Complete'' ''Application Available'' \<and>
   isLegacy (sampleCR\<lparr>PathConfig := Some ''/var/hpvolumes''\<rparr>) \<and>
   fst (checkDegraded sampleEnv
     (sampleWorld (sampleCluster\<lparr>legacyDaemonSet :=
        Some \<lparr>NumberReady = 0, DesiredNumberScheduled = 3\<rparr>\<rparr>))
     (sampleCR\<lparr>PathConfig := Some ''/var/hpvolumes''\<rparr>) ''hpp'')
     = (True, None) \<and>
   snd (snd (reconcileAvailability sampleEnv
     (sampleWorld (sampleCluster\<lparr>legacyDaemonSet :=
        Some \<lparr>NumberReady = 0, DesiredNumberScheduled = 3\<rparr>\<rparr>))
     (sampleCR\<lparr>PathConfig := Some ''/var/hpvolumes''\<rparr>) ''hpp'' emptyResult))
     = sampleCR\<lparr>PathConfig := Some ''/var/hpvolumes''\<rparr>"
proof -
  let ?s = "sampleCluster\<lparr>legacyDaemonSet :=
        Some \<lparr>NumberReady = 0, DesiredNumberScheduled = 3\<rparr>\<rparr>"
  let ?w = "sampleWorld ?s"
  let ?legacy = "sampleCR\<lparr>PathConfig := Some ''/var/hpvolumes''\<rparr>"
  have st: "store ?w = ?s" by (simp add: sampleWorld_def)
  have m: "\<not> isLegacy sampleCR" "isLegacy ?legacy"
    by (simp_all add: isLegacy_def sampleCR_def)
  have r: "workloadsReady sampleEnv ?s sampleCR ''hpp''"
    "\<not> workloadsReady sampleEnv ?s ?legacy ''hpp''"
    by (simp_all add: workloadsReady_def daemonSetReadyIn_def isLegacy_def
        checkDaemonSetReady_def checkApplicationAvailable_def word_sless_alt word_sle_eq
        sample_defs)
  have e: "snd (fst (checkDegraded sampleEnv ?w sampleCR ''hpp'')) = None"
    "snd (fst (checkDegraded sampleEnv ?w ?legacy ''hpp'')) = None"
    by (simp_all add: checkDegraded_def getLegacyDaemonSet_def getCsiDaemonSet_def
        isLegacy_def Let_def sample_defs)
  from availability_by_mode [of sampleEnv ?w sampleCR "''hpp''" emptyResult]
    availability_by_mode [of sampleEnv ?w ?legacy "''hpp''" emptyResult]
    m r e st
  show ?thesis by (simp add: prod_eq_iff)
qed

subsection \<open>The observed version\<close>

lemma checkDegraded_cr:
  "snd (checkDegraded env w cr namespace) = cr \<or>
   snd (checkDegraded env w cr namespace)
     = MarkCrFailed env cr ''Degraded'' ''CR is deployed but DaemonSets are not ready''"
  by (auto simp: checkDegraded_def Let_def split: sum.splits)

text \<open>
  C6. In the status reconciliation \<open>ObservedVersion\<close> is only assigned when the
  degraded check reports not degraded: in every run of \<open>reconcileStatus\<close> in which the
  check reports degraded, \<open>ObservedVersion\<close> is the same after the run as before it.
  The three helpers that are handed the CR and are defined in other files
  (\<open>MarkCrFailed\<close>, \<open>MarkCrFailedHealing\<close>, \<open>reconcileStoragePoolStatus\<close>) are
  assumed to leave \<open>ObservedVersion\<close> alone.
\<close>

theorem reconcileStatus_keeps_ObservedVersion:
  assumes failed: "\<And>c reason message. ObservedVersion (MarkCrFailed env c reason message) = ObservedVersion c"
    and healing: "\<And>c reason message. ObservedVersion (MarkCrFailedHealing env c reason message) = ObservedVersion c"
    and pools: "\<And>s c n. ObservedVersion (snd (snd (reconcileStoragePoolStatus env s c n))) = ObservedVersion c"
    and degraded: "fst (fst (checkDegraded env w cr namespace))"
  shows "ObservedVersion (snd (snd (reconcileStatus env w cr namespace versionString))) = ObservedVersion cr"
proof -
  obtain e cr1 where c: "checkDegraded env w cr namespace = ((True, e), cr1)"
    using degraded by (cases "checkDegraded env w cr namespace") auto
  have o1: "ObservedVersion cr1 = ObservedVersion cr"
    using checkDegraded_cr [of env w cr namespace] c failed by auto
  show ?thesis
  proof (cases e)
    case (Some err)
    with c o1 show ?thesis by (simp add: reconcileStatus_def)
  next
    case None
    obtain e2 s2 cr2 where p: "reconcileStoragePoolStatus env (store w) cr1 namespace = (e2, s2, cr2)"
      by (cases "reconcileStoragePoolStatus env (store w) cr1 namespace") auto
    from pools [of "store w" cr1 namespace] p have o2: "ObservedVersion cr2 = ObservedVersion cr1"
      by simp
    from c None p o1 o2 healing show ?thesis
      by (cases e2) (simp_all add: reconcileStatus_def callStatus_def)
  qed
qed

text \<open>
  A CR observed at 1.1.0 under a controller at 1.2.0 while the CSI DaemonSet has no ready
  pod: the check reports degraded and the observed version stays 1.1.0.
\<close>

theorem reconcileStatus_keeps_ObservedVersion_witness:
  "fst (fst (checkDegraded sampleEnv
     (sampleWorld (sampleCluster\<lparr>csiDaemonSet :=
        Some \<lparr>NumberReady = 0, DesiredNumberScheduled = 3\<rparr>\<rparr>))
     (sampleCR\<lparr>ObservedVersion := ''1.1.0''\<rparr>) ''hpp'')) \<and>
   ObservedVersion (snd (snd (reconcileStatus sampleEnv
     (sampleWorld (sampleCluster\<lparr>csiDaemonSet :=
        Some \<lparr>NumberReady = 0, DesiredNumberScheduled = 3\<rparr>\<rparr>))
     (sampleCR\<lparr>ObservedVersion := ''1.1.0''\<rparr>) ''hpp'' ''1.2.0''))) = ''1.1.0''"
proof -
  let ?w = "sampleWorld (sampleCluster\<lparr>csiDaemonSet :=
        Some \<lparr>NumberReady = 0, DesiredNumberScheduled = 3\<rparr>\<rparr>)"
  let ?cr = "sampleCR\<lparr>ObservedVersion := ''1.1.0''\<rparr>"
  have failed: "\<And>c reason message.
      ObservedVersion (MarkCrFailed sampleEnv c reason message) = ObservedVersion c"
    by (simp add: sampleEnv_def markConditions_def)
  have healing: "\<And>c reason message.
      ObservedVersion (MarkCrFailedHealing sampleEnv c reason message) = ObservedVersion c"
    by (simp add: sampleEnv_def markConditions_def)
  have pools: "\<And>s c n.
      ObservedVersion (snd (snd (reconcileStoragePoolStatus sampleEnv s c n))) = ObservedVersion c"
    by (simp add: sampleEnv_def)
  have degraded: "fst (fst (checkDegraded sampleEnv ?w ?cr ''hpp''))"
    by (simp add: checkDegraded_def getLegacyDaemonSet_def getCsiDaemonSet_def isLegacy_def
        checkDaemonSetReady_def checkApplicationAvailable_def sample_defs)
  from reconcileStatus_keeps_ObservedVersion [of sampleEnv ?w ?cr "''hpp''" "''1.2.0''",
      OF failed healing pools degraded] degraded
  show ?thesis by (simp add: sampleCR_def)
qed

subsection \<open>The order of the owned resources\<close>

lemma reconcileKind_trace:
  "reconcileKind env c w cr = ((res, err), w', cr') \<Longrightarrow> trace w' = trace w @ [(c, err)]"
  by (cases c) (auto simp: callReconcile_def split: prod.splits)

lemma reconcileKinds_trace:
  "reconcileKinds env cs res0 w cr = ((res, err), w', cr') \<Longrightarrow>
   (err = None \<and> trace w' = trace w @ succeeded cs) \<or>
   (\<exists>k<length cs. \<exists>e. err = Some e \<and>
      trace w' = trace w @ succeeded (take k cs) @ [(cs ! k, Some e)])"
proof (induction cs arbitrary: res0 w cr)
  case Nil
  then show ?case by (simp add: succeeded_def)
next
  case (Cons c cs)
  obtain r1 e1 w1 cr1 where s: "reconcileKind env c w cr = ((r1, e1), w1, cr1)"
    by (metis prod_cases3 surj_pair)
  then have t1: "trace w1 = trace w @ [(c, e1)]" by (rule reconcileKind_trace)
  show ?case
  proof (cases e1)
    case (Some e)
    with s Cons.prems have "err = Some e" "w' = w1" by simp_all
    with t1 Some have "err = Some e \<and>
      trace w' = trace w @ succeeded (take 0 (c # cs)) @ [((c # cs) ! 0, Some e)]"
      by (simp add: succeeded_def)
    then show ?thesis by blast
  next
    case None
    with s Cons.prems have "reconcileKinds env cs r1 w1 cr1 = ((res, err), w', cr')" by simp
    from Cons.IH [OF this] show ?thesis
    proof
      assume "err = None \<and> trace w' = trace w1 @ succeeded cs"
      with t1 None show ?thesis by (simp add: succeeded_def)
    next
      assume "\<exists>k<length cs. \<exists>e. err = Some e \<and>
        trace w' = trace w1 @ succeeded (take k cs) @ [(cs ! k, Some e)]"
      then obtain k e where k: "k < length cs" "err = Some e"
        "trace w' = trace w1 @ succeeded (take k cs) @ [(cs ! k, Some e)]" by blast
      with t1 None have "Suc k < length (c # cs) \<and> err = Some e \<and>
        trace w' = trace w @ succeeded (take (Suc k) (c # cs)) @ [((c # cs) ! Suc k, Some e)]"
        by (simp add: succeeded_def)
      then show ?thesis by blast
    qed
  qed
qed

lemma reconcileUpdate_refines:
  "reconcileUpdate env w cr ns =
     (case reconcileKinds env (ownedKindsInOrder ns) emptyResult w cr of
        ((res, Some err), w', cr') \<Rightarrow> ((res, Some err), w', cr')
      | ((res, None), w', cr') \<Rightarrow> reconcileAvailability env w' cr' ns res)"
  by (simp add: reconcileUpdate_def ownedKindsInOrder_def split: prod.splits option.splits)

lemma reconcileCleanup_trace:
  "reconcileCleanup env w cr ns n = (x, w') \<Longrightarrow>
   \<exists>rest. trace w' = trace w @ rest \<and> set (map fst rest) \<subseteq> {RemoveCleanUpJobs ns}"
  by (auto simp: reconcileCleanup_def callDelete_def split: sum.splits if_splits prod.splits option.splits)

lemma reconcileAvailability_trace:
  "reconcileAvailability env w cr ns res = (x, w', cr') \<Longrightarrow>
   \<exists>rest. trace w' = trace w @ rest \<and>
     set (map fst rest) \<subseteq>
       {RecorderEvent ''Normal'' (provisionerHealthy env) (provisionerHealthyMessage env),
        RemoveCleanUpJobs ns}"
proof (cases "getLegacyDaemonSet env (store w) cr ns")
  case (Inl e)
  assume "reconcileAvailability env w cr ns res = (x, w', cr')"
  with Inl have "w' = w" by (simp add: reconcileAvailability_def)
  then show ?thesis by simp
next
  case (Inr daemonSet)
  note legacy = Inr
  assume run: "reconcileAvailability env w cr ns res = (x, w', cr')"
  show ?thesis
  proof (cases "getCsiDaemonSet env (store w) ns")
    case (Inl e)
    with legacy run have "w' = w" by (simp add: reconcileAvailability_def)
    then show ?thesis by simp
  next
    case (Inr daemonSetCsi)
    let ?healthy = "(\<not> isLegacy cr \<or> checkDaemonSetReady daemonSet) \<and> checkDaemonSetReady daemonSetCsi"
    let ?ev = "RecorderEvent ''Normal'' (provisionerHealthy env) (provisionerHealthyMessage env)"
    let ?w1 = "if ?healthy then emit ?ev w else w"
    let ?cr1 = "if ?healthy then MarkCrHealthyMessage env cr ''Complete'' ''Application Available'' else cr"
    obtain y w2 where c: "reconcileCleanup env ?w1 ?cr1 ns (sint (DesiredNumberScheduled daemonSetCsi)) = (y, w2)"
      by (metis surj_pair)
    with legacy Inr run have "w' = w2"
      by (auto simp: reconcileAvailability_def Let_def split: prod.splits if_splits)
    moreover from reconcileCleanup_trace [OF c] obtain rest where
      "trace w2 = trace ?w1 @ rest" "set (map fst rest) \<subseteq> {RemoveCleanUpJobs ns}" by blast
    moreover have "trace ?w1 = trace w @ (if ?healthy then [(?ev, None)] else [])"
      by (simp add: emit_def)
    ultimately have "trace w' = trace w @ ((if ?healthy then [(?ev, None)] else []) @ rest) \<and>
      set (map fst ((if ?healthy then [(?ev, None)] else []) @ rest)) \<subseteq> {?ev, RemoveCleanUpJobs ns}"
      by auto
    then show ?thesis by blast
  qed
qed

text \<open>
  C8. The desired-state reconciliation applies the owned-resource kinds in the fixed
  order: daemon workloads, storage pools, service accounts, cluster role, cluster role
  binding, namespaced role, namespaced role binding, storage-driver registration,
  security policy, monitoring infra. Either one of them fails: then the calls of the run
  are the kinds before it, each returning nil, and the failing kind with its error, which
  the run returns, and nothing after it. Or all ten return nil, in that order, and no
  kind is applied again in what follows.
\<close>

theorem reconcileUpdate_fixed_order:
  assumes run: "reconcileUpdate env w cr namespace = ((res, err), w', cr')"
  shows "(\<exists>k<10. \<exists>e. err = Some e \<and>
            trace w' = trace w @ succeeded (take k (ownedKindsInOrder namespace))
                       @ [(ownedKindsInOrder namespace ! k, Some e)]) \<or>
         (\<exists>rest. trace w' = trace w @ succeeded (ownedKindsInOrder namespace) @ rest \<and>
            set (map fst rest) \<inter> set (ownedKindsInOrder namespace) = {})"
proof -
  obtain r10 e10 w10 cr10 where
    k: "reconcileKinds env (ownedKindsInOrder namespace) emptyResult w cr = ((r10, e10), w10, cr10)"
    by (metis prod_cases3 surj_pair)
  have len: "length (ownedKindsInOrder namespace) = 10" by (simp add: ownedKindsInOrder_def)
  from reconcileKinds_trace [OF k] show ?thesis
  proof
    assume ok: "e10 = None \<and> trace w10 = trace w @ succeeded (ownedKindsInOrder namespace)"
    with k run have "reconcileAvailability env w10 cr10 namespace r10 = ((res, err), w', cr')"
      by (simp add: reconcileUpdate_refines)
    from reconcileAvailability_trace [OF this] obtain rest where
      rest: "trace w' = trace w10 @ rest"
        "set (map fst rest) \<subseteq>
          {RecorderEvent ''Normal'' (provisionerHealthy env) (provisionerHealthyMessage env),
           RemoveCleanUpJobs namespace}" by blast
    then have "set (map fst rest) \<inter> set (ownedKindsInOrder namespace) = {}"
      by (auto simp: ownedKindsInOrder_def)
    with ok rest(1) show ?thesis by auto
  next
    assume "\<exists>k<length (ownedKindsInOrder namespace). \<exists>e. e10 = Some e \<and>
      trace w10 = trace w @ succeeded (take k (ownedKindsInOrder namespace))
        @ [(ownedKindsInOrder namespace ! k, Some e)]"
    then obtain j e where j: "j < 10" "e10 = Some e"
      "trace w10 = trace w @ succeeded (take j (ownedKindsInOrder namespace))
        @ [(ownedKindsInOrder namespace ! j, Some e)]"
      using len by auto
    with k run have "err = Some e" "w' = w10" by (simp_all add: reconcileUpdate_refines)
    with j show ?thesis by blast
  qed
qed

text \<open>
  A cluster that refuses the namespaced role: the five kinds before it are applied, the
  role fails, and the run stops there with that error.
\<close>

theorem reconcileUpdate_fixed_order_witness:
  "reconcileUpdate sampleEnv (sampleWorld (sampleCluster\<lparr>refused := [ReconcileRole ''hpp'']\<rparr>))
     sampleCR ''hpp''
   = ((emptyResult, Some (Failure ''refused'')),
      \<lparr>store = sampleCluster\<lparr>refused := [ReconcileRole ''hpp'']\<rparr>,
       trace = succeeded (take 5 (ownedKindsInOrder ''hpp''))
               @ [(ownedKindsInOrder ''hpp'' ! 5, Some (Failure ''refused''))]\<rparr>,
      sampleCR) \<and>
   ((\<exists>k<10. \<exists>e. Some (Failure ''refused'') = Some e \<and>
       succeeded (take 5 (ownedKindsInOrder ''hpp''))
         @ [(ownedKindsInOrder ''hpp'' ! 5, Some (Failure ''refused''))]
       = succeeded (take k (ownedKindsInOrder ''hpp'')) @ [(ownedKindsInOrder ''hpp'' ! k, Some e)]) \<or>
    (\<exists>rest. succeeded (take 5 (ownedKindsInOrder ''hpp''))
         @ [(ownedKindsInOrder ''hpp'' ! 5, Some (Failure ''refused''))]
       = succeeded (ownedKindsInOrder ''hpp'') @ rest \<and>
       set (map fst rest) \<inter> set (ownedKindsInOrder ''hpp'') = {}))"
proof -
  have run: "reconcileUpdate sampleEnv
      (sampleWorld (sampleCluster\<lparr>refused := [ReconcileRole ''hpp'']\<rparr>)) sampleCR ''hpp''
    = ((emptyResult, Some (Failure ''refused'')),
       \<lparr>store = sampleCluster\<lparr>refused := [ReconcileRole ''hpp'']\<rparr>,
        trace = succeeded (take 5 (ownedKindsInOrder ''hpp''))
                @ [(ownedKindsInOrder ''hpp'' ! 5, Some (Failure ''refused''))]\<rparr>,
       sampleCR)"
    by (simp add: reconcileUpdate_def ownedKindsInOrder_def succeeded_def call_defs sample_defs)
  from reconcileUpdate_fixed_order [OF run] run show ?thesis
    by (simp add: sampleWorld_def)
qed

subsection \<open>The deletion branch\<close>

lemma deleteCalls_trace:
  "deleteCalls env cs w = (err, w') \<Longrightarrow>
   (err = None \<and> trace w' = trace w @ succeeded cs) \<or>
   (\<exists>k<length cs. \<exists>e. err = Some e \<and>
      trace w' = trace w @ succeeded (take k cs) @ [(cs ! k, Some e)])"
proof (induction cs arbitrary: w)
  case Nil
  then show ?case by (simp add: succeeded_def)
next
  case (Cons c cs)
  obtain e1 s1 where s: "deleteCall env c (store w) = (e1, s1)" by (metis surj_pair)
  let ?w1 = "\<lparr>store = s1, trace = trace w @ [(c, e1)]\<rparr>"
  from s have c1: "callDelete c (deleteCall env c) w = (e1, ?w1)" by (simp add: callDelete_def)
  show ?case
  proof (cases e1)
    case (Some e)
    with c1 Cons.prems have "err = Some e" "w' = ?w1" by auto
    with Some have "err = Some e \<and>
      trace w' = trace w @ succeeded (take 0 (c # cs)) @ [((c # cs) ! 0, Some e)]"
      by (simp add: succeeded_def)
    then show ?thesis by blast
  next
    case None
    with c1 Cons.prems have "deleteCalls env cs ?w1 = (err, w')" by simp
    from Cons.IH [OF this] show ?thesis
    proof
      assume "err = None \<and> trace w' = trace ?w1 @ succeeded cs"
      with None show ?thesis by (simp add: succeeded_def)
    next
      assume "\<exists>k<length cs. \<exists>e. err = Some e \<and>
        trace w' = trace ?w1 @ succeeded (take k cs) @ [(cs ! k, Some e)]"
      then obtain k e where k: "k < length cs" "err = Some e"
        "trace w' = trace ?w1 @ succeeded (take k cs) @ [(cs ! k, Some e)]" by blast
      with None have "Suc k < length (c # cs) \<and> err = Some e \<and>
        trace w' = trace w @ succeeded (take (Suc k) (c # cs)) @ [((c # cs) ! Suc k, Some e)]"
        by (simp add: succeeded_def)
      then show ?thesis by blast
    qed
  qed
qed

lemma deleteCall_fun:
  "deleteCall env (RemoveCleanUpJobs ns) = (\<lambda>s. removeCleanUpJobs env s ns)"
  "deleteCall env (DeleteSCC name) = (\<lambda>s. deleteSCC env s name)"
  "deleteCall env (DeletePrometheusResources ns) = (\<lambda>s. deletePrometheusResources env s ns)"
  "deleteCall env (DeleteClusterRoleBindingObject name) = (\<lambda>s. deleteClusterRoleBindingObject env s name)"
  "deleteCall env (DeleteClusterRoleObject name) = (\<lambda>s. deleteClusterRoleObject env s name)"
  "deleteCall env (DeleteRoleBindingObject name ns) = (\<lambda>s. deleteRoleBindingObject env s name ns)"
  "deleteCall env (DeleteRoleObject name ns) = (\<lambda>s. deleteRoleObject env s name ns)"
  "deleteCall env DeleteCSIDriver = (\<lambda>s. deleteCSIDriver env s)"
  by (rule ext, simp)+

lemma deleteCalls_append:
  "deleteCalls env (xs @ ys) w =
     (case deleteCalls env xs w of
        (Some err, w') \<Rightarrow> (Some err, w')
      | (None, w') \<Rightarrow> deleteCalls env ys w')"
  by (induction xs arbitrary: w) (auto split: prod.splits option.splits)

lemma deleteAllRbacLoop_step:
  "deleteAllRbacLoop env ns (name # names) w =
     (case deleteCalls env (rbacCalls ns name) w of
        (Some err, w') \<Rightarrow> ((emptyResult, Some err), w')
      | (None, w') \<Rightarrow> deleteAllRbacLoop env ns names w')"
  by (simp add: rbacCalls_def deleteCall_fun split: prod.splits option.splits)

lemma deleteAllRbacLoop_refines:
  "deleteAllRbacLoop env ns names w =
     (case deleteCalls env (concat (map (rbacCalls ns) names)) w of
        (err, w') \<Rightarrow> ((emptyResult, err), w'))"
proof (induction names arbitrary: w)
  case Nil
  show ?case by simp
next
  case (Cons name names)
  show ?case
    by (simp add: deleteAllRbacLoop_step Cons.IH deleteCalls_append
        del: deleteAllRbacLoop.simps split: prod.splits option.splits)
qed

lemma deleteStepsInOrder_split:
  "deleteStepsInOrder env ns =
     [DeleteSCC (MultiPurposeHostPathProvisionerName env),
      DeleteSCC (MultiPurposeHostPathProvisionerName env @ ''-csi''),
      DeletePrometheusResources ns]
     @ concat (map (rbacCalls ns)
         [ProvisionerServiceAccountName env, ProvisionerServiceAccountNameCsi env,
          MultiPurposeHostPathProvisionerName env])
     @ [DeleteCSIDriver]"
  by (simp add: deleteStepsInOrder_def)

lemma deleteClusterObjects_refines:
  "deleteClusterObjects env w ns =
     (case deleteCalls env (deleteStepsInOrder env ns) w of
        (err, w') \<Rightarrow> ((emptyResult, err), w'))"
  unfolding deleteClusterObjects_def deleteAllRbac_def deleteAllRbacLoop_refines
    deleteStepsInOrder_split deleteCalls_append
  by (simp add: deleteCall_fun split: prod.splits option.splits)

lemma updatesIn_append: "updatesIn (xs @ ys) = updatesIn xs @ updatesIn ys"
  by (simp add: updatesIn_def)

lemma updatesIn_succeeded:
  "(\<And>c. c \<in> set cs \<Longrightarrow> \<not> isClientUpdate c) \<Longrightarrow> updatesIn (succeeded cs) = []"
  by (induction cs) (simp_all add: updatesIn_def succeeded_def)

lemma Some_notin_succeeded: "(c, Some e) \<notin> set (succeeded cs)"
  by (auto simp: succeeded_def)

lemma deleteSteps_no_update: "c \<in> set (deleteStepsInOrder env ns) \<Longrightarrow> \<not> isClientUpdate c"
  by (auto simp: deleteStepsInOrder_def rbacCalls_def)

lemma reconcileDeletion_shape:
  assumes clean: "cleanDeployments env (store w) cr ns = (cleanErr, s1, cr1)"
    and run: "reconcileDeletion env w cr ns = ((res, err), w')"
  shows "\<exists>new. trace w' = trace w @ new \<and>
     (updatesIn new \<noteq> [] \<longrightarrow>
        cleanErr = None \<and> currentStoragePoolDeployments env s1 cr1 ns = Inr [] \<and>
        hasCleanUpFinished env s1 ns = Inr True \<and>
        new = succeeded (CleanDeployments ns # RemoveCleanUpJobs ns # deleteStepsInOrder env ns)
              @ [(ClientUpdate (RemoveFinalizer cr1 hppFinalizer), err)] \<and>
        res = emptyResult) \<and>
     (cleanErr = None \<and> currentStoragePoolDeployments env s1 cr1 ns = Inr l \<and>
      hasCleanUpFinished env s1 ns = Inr fin \<and> (l \<noteq> [] \<or> \<not> fin)
      \<longrightarrow> res = \<lparr>Requeue = False, RequeueAfter = Second\<rparr> \<and> err = None \<and> updatesIn new = []) \<and>
     (\<forall>c e. (c, Some e) \<in> set new \<and> \<not> isClientUpdate c
      \<longrightarrow> res = emptyResult \<and> err = Some e \<and> updatesIn new = []) \<and>
     (cleanErr = None \<and>
      (currentStoragePoolDeployments env s1 cr1 ns = Inl qe \<or>
       currentStoragePoolDeployments env s1 cr1 ns = Inr l \<and> hasCleanUpFinished env s1 ns = Inl qe)
      \<longrightarrow> res = emptyResult \<and> err = Some qe \<and> updatesIn new = [])"
    (is "\<exists>new. ?Q new")
proof -
  let ?w1 = "\<lparr>store = s1, trace = trace w @ [(CleanDeployments ns, cleanErr)]\<rparr>"
  have cs: "callStatus (CleanDeployments ns) (\<lambda>s. cleanDeployments env s cr ns) w
      = (cleanErr, ?w1, cr1)"
    using clean by (simp add: callStatus_def)
  show ?thesis
  proof (cases cleanErr)
    case (Some e)
    with cs run have "res = emptyResult" "err = Some e" "w' = ?w1"
      by (auto simp: reconcileDeletion_def)
    with Some have "?Q [(CleanDeployments ns, cleanErr)]" by (simp add: updatesIn_def)
    then show ?thesis ..
  next
    case None
    note cleaned = None
    show ?thesis
    proof (cases "currentStoragePoolDeployments env s1 cr1 ns")
      case (Inl e)
      then have "reconcileCleanup env ?w1 cr1 ns 0 = ((emptyResult, Some e), ?w1)"
        by (simp add: reconcileCleanup_def)
      with cs cleaned run have "res = emptyResult" "err = Some e" "w' = ?w1"
        by (auto simp: reconcileDeletion_def)
      with Inl cleaned have "?Q [(CleanDeployments ns, cleanErr)]" by (simp add: updatesIn_def)
      then show ?thesis ..
    next
      case (Inr pools)
      note listed = Inr
      show ?thesis
      proof (cases "hasCleanUpFinished env s1 ns")
        case (Inl e)
        with listed have "reconcileCleanup env ?w1 cr1 ns 0 = ((emptyResult, Some e), ?w1)"
          by (simp add: reconcileCleanup_def)
        with cs cleaned run have "res = emptyResult" "err = Some e" "w' = ?w1"
          by (auto simp: reconcileDeletion_def)
        with Inl listed cleaned have "?Q [(CleanDeployments ns, cleanErr)]"
          by (simp add: updatesIn_def)
        then show ?thesis ..
      next
        case (Inr finished)
        note polled = Inr
        show ?thesis
        proof (cases "pools = [] \<and> finished")
          case False
          with listed polled have "reconcileCleanup env ?w1 cr1 ns 0
              = ((\<lparr>Requeue = False, RequeueAfter = Second\<rparr>, None), ?w1)"
            by (auto simp: reconcileCleanup_def)
          with cs cleaned run have "res = \<lparr>Requeue = False, RequeueAfter = Second\<rparr>"
            "err = None" "w' = ?w1"
            by (auto simp: reconcileDeletion_def)
          with False listed polled cleaned have "?Q [(CleanDeployments ns, cleanErr)]"
            by (simp add: updatesIn_def)
          then show ?thesis ..
        next
          case True
          obtain re s2 where rm: "removeCleanUpJobs env s1 ns = (re, s2)" by (metis surj_pair)
          let ?w2 = "\<lparr>store = s2, trace = trace ?w1 @ [(RemoveCleanUpJobs ns, re)]\<rparr>"
          from rm True listed polled
          have rc: "reconcileCleanup env ?w1 cr1 ns 0 = ((emptyResult, re), ?w2)"
            by (cases re) (simp_all add: reconcileCleanup_def callDelete_def)
          show ?thesis
          proof (cases re)
            case (Some e)
            with rc cs cleaned run have "res = emptyResult" "err = Some e" "w' = ?w2"
              by (auto simp: reconcileDeletion_def)
            with Some True listed polled cleaned
            have "?Q [(CleanDeployments ns, cleanErr), (RemoveCleanUpJobs ns, re)]"
              by (auto simp: updatesIn_def)
            then show ?thesis ..
          next
            case None
            note removed = None
            obtain de w7 where dc: "deleteCalls env (deleteStepsInOrder env ns) ?w2 = (de, w7)"
              by (metis surj_pair)
            then have dco: "deleteClusterObjects env ?w2 ns = ((emptyResult, de), w7)"
              by (simp add: deleteClusterObjects_refines)
            have nosec: "RequeueAfter emptyResult \<noteq> Second"
              by (simp add: emptyResult_def Second_def)
            from deleteCalls_trace [OF dc] show ?thesis
            proof
              assume ok: "de = None \<and> trace w7 = trace ?w2 @ succeeded (deleteStepsInOrder env ns)"
              obtain ue s8 cr2 where up:
                "clientUpdate env (store w7) (RemoveFinalizer cr1 hppFinalizer) = (ue, s8, cr2)"
                by (metis prod_cases3)
              let ?w8 = "\<lparr>store = s8, trace = trace w7
                  @ [(ClientUpdate (RemoveFinalizer cr1 hppFinalizer), ue)]\<rparr>"
              from up have cu: "callUpdate env w7 (RemoveFinalizer cr1 hppFinalizer) = (ue, ?w8, cr2)"
                by (simp add: callUpdate_def callStatus_def)
              from rc cs cleaned removed dco ok cu nosec run
              have r: "res = emptyResult" "err = ue" "w' = ?w8"
                by (cases ue; auto simp: reconcileDeletion_def)+
              let ?new = "succeeded (CleanDeployments ns # RemoveCleanUpJobs ns # deleteStepsInOrder env ns)
                  @ [(ClientUpdate (RemoveFinalizer cr1 hppFinalizer), err)]"
              from r ok cleaned removed have t: "trace w' = trace w @ ?new"
                by (simp add: succeeded_def)
              have u: "updatesIn ?new \<noteq> []" by (simp add: updatesIn_def)
              have s: "\<And>c e. (c, Some e) \<in> set ?new \<Longrightarrow> isClientUpdate c"
                by (auto simp: succeeded_def)
              from t u s r True listed polled cleaned have "?Q ?new" by auto
              then show ?thesis ..
            next
              assume "\<exists>k<length (deleteStepsInOrder env ns). \<exists>e. de = Some e \<and>
                trace w7 = trace ?w2 @ succeeded (take k (deleteStepsInOrder env ns))
                  @ [(deleteStepsInOrder env ns ! k, Some e)]"
              then obtain k e where k: "k < length (deleteStepsInOrder env ns)" "de = Some e"
                "trace w7 = trace ?w2 @ succeeded (take k (deleteStepsInOrder env ns))
                  @ [(deleteStepsInOrder env ns ! k, Some e)]" by blast
              from rc cs cleaned removed dco k nosec run
              have r: "res = emptyResult" "err = Some e" "w' = w7"
                by (auto simp: reconcileDeletion_def)
              let ?new = "[(CleanDeployments ns, None), (RemoveCleanUpJobs ns, None)]
                  @ succeeded (take k (deleteStepsInOrder env ns))
                  @ [(deleteStepsInOrder env ns ! k, Some e)]"
              from r k cleaned removed have t: "trace w' = trace w @ ?new" by simp
              have nk: "\<not> isClientUpdate (deleteStepsInOrder env ns ! k)"
                by (rule deleteSteps_no_update [OF nth_mem [OF k(1)]])
              have "updatesIn (succeeded (take k (deleteStepsInOrder env ns))) = []"
                by (rule updatesIn_succeeded) (auto dest: in_set_takeD deleteSteps_no_update)
              with nk have u: "updatesIn ?new = []" by (simp add: updatesIn_def)
              have s: "\<And>c e'. (c, Some e') \<in> set ?new \<Longrightarrow> e' = e"
                by (auto simp: Some_notin_succeeded)
              from t u s r True listed polled have "?Q ?new" by auto
              then show ?thesis ..
            qed
          qed
        qed
      qed
    qed
  qed
qed

lemma store_setReadyGauge: "store (setReadyGauge env cr w) = store w"
  by (simp add: setReadyGauge_def emit_def)

text \<open>
  C2, as the code has it. On the deletion branch the finalizer is removed and the CR
  updated only after every prior delete step has succeeded and the cleanup wait has
  converged. Of the calls that the run adds to the trace: an update of the CR is among
  them only when cleaning the deployments returned nil, no storage pool deployment is left
  and the cleanup jobs have finished, and then the calls are all the delete steps in
  order, each returning nil, followed by the update of the CR without its finalizer. When
  cleaning the deployments returned nil and both queries of the wait returned, and the
  deployments left are not zero or the cleanup jobs are still running, the run returns
  requeue-after one second and makes no update. When any delete step returns an error,
  the run returns that error and makes no update. And when a query of the wait returns an
  error, the run returns that error and makes no update.
\<close>

theorem Reconcile_deletion_finalizer:
  assumes list: "clientList env (store w) = Inr hppList"
    and single: "length hppList \<le> 1"
    and version: "VersionStringFunc env = Inr versionString"
    and get: "clientGet env (store w) request = Inr cr"
    and deleting: "DeletionTimestamp cr \<noteq> None"
    and clean: "cleanDeployments env (store w) cr (watchNamespaceFunc env) = (cleanErr, s1, cr1)"
    and run: "Reconcile env w request = (out, w')"
  shows "\<exists>new. trace w' = trace (setReadyGauge env cr w) @ new \<and>
     (updatesIn new \<noteq> [] \<longrightarrow>
        cleanErr = None \<and>
        currentStoragePoolDeployments env s1 cr1 (watchNamespaceFunc env) = Inr [] \<and>
        hasCleanUpFinished env s1 (watchNamespaceFunc env) = Inr True \<and>
        (\<exists>e. new = succeeded (CleanDeployments (watchNamespaceFunc env)
                      # RemoveCleanUpJobs (watchNamespaceFunc env)
                      # deleteStepsInOrder env (watchNamespaceFunc env))
                    @ [(ClientUpdate (RemoveFinalizer cr1 hppFinalizer), e)] \<and>
              out = Returned emptyResult e)) \<and>
     (cleanErr = None \<and>
      currentStoragePoolDeployments env s1 cr1 (watchNamespaceFunc env) = Inr pools \<and>
      hasCleanUpFinished env s1 (watchNamespaceFunc env) = Inr finished \<and>
      (pools \<noteq> [] \<or> \<not> finished)
      \<longrightarrow> out = Returned \<lparr>Requeue = False, RequeueAfter = Second\<rparr> None \<and> updatesIn new = []) \<and>
     (\<forall>c e. (c, Some e) \<in> set new \<and> \<not> isClientUpdate c
      \<longrightarrow> out = Returned emptyResult (Some e) \<and> updatesIn new = []) \<and>
     (cleanErr = None \<and>
      (currentStoragePoolDeployments env s1 cr1 (watchNamespaceFunc env) = Inl queryErr \<or>
       currentStoragePoolDeployments env s1 cr1 (watchNamespaceFunc env) = Inr pools \<and>
       hasCleanUpFinished env s1 (watchNamespaceFunc env) = Inl queryErr)
      \<longrightarrow> out = Returned emptyResult (Some queryErr) \<and> updatesIn new = [])"
proof -
  let ?ns = "watchNamespaceFunc env"
  let ?w0 = "setReadyGauge env cr w"
  obtain res err w2 where d: "reconcileDeletion env ?w0 cr ?ns = ((res, err), w2)"
    by (metis surj_pair)
  from list single version get deleting d run
  have o: "out = Returned res err" "w' = w2"
    by (auto simp: Reconcile_def getHppList_def Let_def)
  from clean have c: "cleanDeployments env (store ?w0) cr ?ns = (cleanErr, s1, cr1)"
    by (simp add: store_setReadyGauge)
  from reconcileDeletion_shape [OF c d, of pools finished queryErr] o
  show ?thesis by auto
qed

lemmas run_defs =
  Reconcile_def getHppList_def reconcileDeletion_def deleteClusterObjects_def deleteAllRbac_def
  reconcileCleanup_def setReadyGauge_def RemoveFinalizer_def HasFinalizer_def Let_def

text \<open>
  Three runs on a CR under deletion. While one storage pool deployment is left, the run
  asks to be requeued after a second and makes no update. When the cluster refuses to
  delete the CSIDriver, the run returns that error and makes no update. When every step
  succeeds, the run returns nil and its one update is the CR without the finalizer.
\<close>

theorem Reconcile_deletion_finalizer_witness:
  "fst (Reconcile sampleEnv
     (sampleWorld (sampleCluster\<lparr>hpps := [sampleCR\<lparr>DeletionTimestamp := Some 5\<rparr>],
        poolDeployments := [''pool-a'']\<rparr>)) ([], ''hpp''))
   = Returned \<lparr>Requeue = False, RequeueAfter = Second\<rparr> None \<and>
   updatesIn (trace (snd (Reconcile sampleEnv
     (sampleWorld (sampleCluster\<lparr>hpps := [sampleCR\<lparr>DeletionTimestamp := Some 5\<rparr>],
        poolDeployments := [''pool-a'']\<rparr>)) ([], ''hpp'')))) = [] \<and>
   fst (Reconcile sampleEnv
     (sampleWorld (sampleCluster\<lparr>hpps := [sampleCR\<lparr>DeletionTimestamp := Some 5\<rparr>],
        refused := [DeleteCSIDriver]\<rparr>)) ([], ''hpp''))
   = Returned emptyResult (Some (Failure ''refused'')) \<and>
   updatesIn (trace (snd (Reconcile sampleEnv
     (sampleWorld (sampleCluster\<lparr>hpps := [sampleCR\<lparr>DeletionTimestamp := Some 5\<rparr>],
        refused := [DeleteCSIDriver]\<rparr>)) ([], ''hpp'')))) = [] \<and>
   fst (Reconcile sampleEnv
     (sampleWorld (sampleCluster\<lparr>hpps := [sampleCR\<lparr>DeletionTimestamp := Some 5\<rparr>]\<rparr>))
     ([], ''hpp''))
   = Returned emptyResult None \<and>
   updatesIn (trace (snd (Reconcile sampleEnv
     (sampleWorld (sampleCluster\<lparr>hpps := [sampleCR\<lparr>DeletionTimestamp := Some 5\<rparr>]\<rparr>))
     ([], ''hpp''))))
   = [(ClientUpdate (sampleCR\<lparr>DeletionTimestamp := Some 5, Finalizers := None\<rparr>), None)]"
proof -
  let ?cr = "sampleCR\<lparr>DeletionTimestamp := Some 5\<rparr>"
  let ?ns = "watchNamespaceFunc sampleEnv"
  have version: "VersionStringFunc sampleEnv = Inr ''1.2.0''" by (simp add: sample_defs)
  have deleting: "DeletionTimestamp ?cr \<noteq> None" by simp
  have single: "length [?cr] \<le> 1" by simp
  have removed: "RemoveFinalizer ?cr hppFinalizer = ?cr\<lparr>Finalizers := None\<rparr>"
    by (simp add: RemoveFinalizer_def HasFinalizer_def sampleCR_def)

  \<comment> \<open>one storage pool deployment is left\<close>
  let ?s1 = "sampleCluster\<lparr>hpps := [?cr], poolDeployments := [''pool-a'']\<rparr>"
  let ?run1 = "Reconcile sampleEnv (sampleWorld ?s1) ([], ''hpp'')"
  have list1: "clientList sampleEnv (store (sampleWorld ?s1)) = Inr [?cr]"
    and get1: "clientGet sampleEnv (store (sampleWorld ?s1)) ([], ''hpp'') = Inr ?cr"
    and clean1: "cleanDeployments sampleEnv (store (sampleWorld ?s1)) ?cr ?ns = (None, ?s1, ?cr)"
    and pools1: "currentStoragePoolDeployments sampleEnv ?s1 ?cr ?ns = Inr [''pool-a'']"
    and finished1: "hasCleanUpFinished sampleEnv ?s1 ?ns = Inr True"
    by (simp_all add: sample_defs)
  have gauge1: "updatesIn (trace (setReadyGauge sampleEnv ?cr (sampleWorld ?s1))) = []"
    by (simp add: setReadyGauge_def updatesIn_def emit_def sample_defs)
  have run1: "?run1 = (fst ?run1, snd ?run1)" by simp
  from Reconcile_deletion_finalizer [OF list1 single version get1 deleting clean1 run1,
      of "[''pool-a'']" True] pools1 finished1
  obtain new1 where
    "trace (snd ?run1) = trace (setReadyGauge sampleEnv ?cr (sampleWorld ?s1)) @ new1"
    "fst ?run1 = Returned \<lparr>Requeue = False, RequeueAfter = Second\<rparr> None"
    "updatesIn new1 = []"
    by auto
  with gauge1 have first: "fst ?run1 = Returned \<lparr>Requeue = False, RequeueAfter = Second\<rparr> None"
    "updatesIn (trace (snd ?run1)) = []"
    by (simp_all add: updatesIn_append)

  \<comment> \<open>the cluster refuses to delete the CSIDriver\<close>
  let ?s2 = "sampleCluster\<lparr>hpps := [?cr], refused := [DeleteCSIDriver]\<rparr>"
  let ?run2 = "Reconcile sampleEnv (sampleWorld ?s2) ([], ''hpp'')"
  have list2: "clientList sampleEnv (store (sampleWorld ?s2)) = Inr [?cr]"
    and get2: "clientGet sampleEnv (store (sampleWorld ?s2)) ([], ''hpp'') = Inr ?cr"
    and clean2: "cleanDeployments sampleEnv (store (sampleWorld ?s2)) ?cr ?ns = (None, ?s2, ?cr)"
    by (simp_all add: sample_defs)
  have gauge2: "trace (setReadyGauge sampleEnv ?cr (sampleWorld ?s2)) = [(SetReadyGaugeValue 0, None)]"
    by (simp add: setReadyGauge_def emit_def sample_defs)
  have run2: "?run2 = (fst ?run2, snd ?run2)" by simp
  have trace2: "trace (snd ?run2) = (SetReadyGaugeValue 0, None)
      # succeeded (CleanDeployments ''hpp'' # RemoveCleanUpJobs ''hpp''
           # take 15 (deleteStepsInOrder sampleEnv ''hpp''))
      @ [(DeleteCSIDriver, Some (Failure ''refused''))]"
    by (simp add: run_defs call_defs sample_defs succeeded_def deleteStepsInOrder_def rbacCalls_def)
  from Reconcile_deletion_finalizer [OF list2 single version get2 deleting clean2 run2,
      where pools = "[]" and finished = True and queryErr = "Failure []"]
  obtain new2 where n2:
    "trace (snd ?run2) = trace (setReadyGauge sampleEnv ?cr (sampleWorld ?s2)) @ new2"
    "\<forall>c e. (c, Some e) \<in> set new2 \<and> \<not> isClientUpdate c
      \<longrightarrow> fst ?run2 = Returned emptyResult (Some e) \<and> updatesIn new2 = []"
    by blast
  from n2(1) gauge2 trace2 have new2: "new2 =
      succeeded (CleanDeployments ''hpp'' # RemoveCleanUpJobs ''hpp''
           # take 15 (deleteStepsInOrder sampleEnv ''hpp''))
      @ [(DeleteCSIDriver, Some (Failure ''refused''))]" by simp
  have mem2: "(DeleteCSIDriver, Some (Failure ''refused'')) \<in> set new2 \<and> \<not> isClientUpdate DeleteCSIDriver"
    by (simp add: new2)
  from n2(2) [rule_format, OF mem2]
  have "fst ?run2 = Returned emptyResult (Some (Failure ''refused''))" "updatesIn new2 = []"
    by simp_all
  with n2(1) gauge2 have second: "fst ?run2 = Returned emptyResult (Some (Failure ''refused''))"
    "updatesIn (trace (snd ?run2)) = []"
    by (simp_all add: updatesIn_def)

  \<comment> \<open>every step succeeds\<close>
  let ?s3 = "sampleCluster\<lparr>hpps := [?cr]\<rparr>"
  let ?run3 = "Reconcile sampleEnv (sampleWorld ?s3) ([], ''hpp'')"
  have list3: "clientList sampleEnv (store (sampleWorld ?s3)) = Inr [?cr]"
    and get3: "clientGet sampleEnv (store (sampleWorld ?s3)) ([], ''hpp'') = Inr ?cr"
    and clean3: "cleanDeployments sampleEnv (store (sampleWorld ?s3)) ?cr ?ns = (None, ?s3, ?cr)"
    by (simp_all add: sample_defs)
  have gauge3: "trace (setReadyGauge sampleEnv ?cr (sampleWorld ?s3)) = [(SetReadyGaugeValue 0, None)]"
    by (simp add: setReadyGauge_def emit_def sample_defs)
  have run3: "?run3 = (fst ?run3, snd ?run3)" by simp
  have trace3: "trace (snd ?run3) = (SetReadyGaugeValue 0, None)
      # succeeded (CleanDeployments ''hpp'' # RemoveCleanUpJobs ''hpp''
           # deleteStepsInOrder sampleEnv ''hpp'')
      @ [(ClientUpdate (?cr\<lparr>Finalizers := None\<rparr>), None)]"
    by (simp add: run_defs call_defs sample_defs succeeded_def deleteStepsInOrder_def rbacCalls_def)
  from Reconcile_deletion_finalizer [OF list3 single version get3 deleting clean3 run3,
      where pools = "[]" and finished = True and queryErr = "Failure []"]
  obtain new3 where
    n3: "trace (snd ?run3) = trace (setReadyGauge sampleEnv ?cr (sampleWorld ?s3)) @ new3"
    and u3: "updatesIn new3 \<noteq> [] \<longrightarrow>
      None = (None :: error option) \<and>
      currentStoragePoolDeployments sampleEnv ?s3 ?cr ?ns = Inr [] \<and>
      hasCleanUpFinished sampleEnv ?s3 ?ns = Inr True \<and>
      (\<exists>e. new3 = succeeded (CleanDeployments ?ns # RemoveCleanUpJobs ?ns
                     # deleteStepsInOrder sampleEnv ?ns)
                   @ [(ClientUpdate (RemoveFinalizer ?cr hppFinalizer), e)] \<and>
            fst ?run3 = Returned emptyResult e)"
    by blast
  from n3 gauge3 trace3 have new3: "new3 =
      succeeded (CleanDeployments ''hpp'' # RemoveCleanUpJobs ''hpp''
           # deleteStepsInOrder sampleEnv ''hpp'')
      @ [(ClientUpdate (?cr\<lparr>Finalizers := None\<rparr>), None)]" by simp
  have upd3: "updatesIn new3 = [(ClientUpdate (?cr\<lparr>Finalizers := None\<rparr>), None)]"
    unfolding new3 by (simp add: updatesIn_def succeeded_def deleteStepsInOrder_def rbacCalls_def)
  then have "updatesIn new3 \<noteq> []" by simp
  with u3 obtain e where
    e: "new3 = succeeded (CleanDeployments ?ns # RemoveCleanUpJobs ?ns
                     # deleteStepsInOrder sampleEnv ?ns)
                   @ [(ClientUpdate (RemoveFinalizer ?cr hppFinalizer), e)]"
       "fst ?run3 = Returned emptyResult e" by (elim impE conjE exE)
  from e(1) have "snd (last new3) = e" by simp
  moreover from new3 have "snd (last new3) = None" by simp
  ultimately have "e = None" by simp
  with e(2) have r3: "fst ?run3 = Returned emptyResult None" by simp
  from n3 gauge3 upd3
  have t3: "updatesIn (trace (snd ?run3)) = [(ClientUpdate (?cr\<lparr>Finalizers := None\<rparr>), None)]"
    by (simp add: updatesIn_def)
  from first second r3 t3 show ?thesis by simp
qed

text \<open>
  Worded for every run with a non-zero count, the requeue fails. One storage pool
  deployment is left and cleaning the deployments has succeeded, but the query for the
  cleanup jobs returns an error: the run returns that error, with no requeue-after (and
  no update of the CR).
\<close>

theorem Reconcile_deletion_query_error_counterexample:
  "cleanDeployments sampleEnv
     (sampleCluster\<lparr>hpps := [sampleCR\<lparr>DeletionTimestamp := Some 5\<rparr>],
        poolDeployments := [''pool-a''], cleanupDone := Inl (Failure ''timeout'')\<rparr>)
     (sampleCR\<lparr>DeletionTimestamp := Some 5\<rparr>) ''hpp''
   = (None,
      sampleCluster\<lparr>hpps := [sampleCR\<lparr>DeletionTimestamp := Some 5\<rparr>],
        poolDeployments := [''pool-a''], cleanupDone := Inl (Failure ''timeout'')\<rparr>,
      sampleCR\<lparr>DeletionTimestamp := Some 5\<rparr>) \<and>
   currentStoragePoolDeployments sampleEnv
     (sampleCluster\<lparr>hpps := [sampleCR\<lparr>DeletionTimestamp := Some 5\<rparr>],
        poolDeployments := [''pool-a''], cleanupDone := Inl (Failure ''timeout'')\<rparr>)
     (sampleCR\<lparr>DeletionTimestamp := Some 5\<rparr>) ''hpp''
   = Inr [''pool-a''] \<and>
   Reconcile sampleEnv
     (sampleWorld (sampleCluster\<lparr>hpps := [sampleCR\<lparr>DeletionTimestamp := Some 5\<rparr>],
        poolDeployments := [''pool-a''], cleanupDone := Inl (Failure ''timeout'')\<rparr>))
     ([], ''hpp'')
   = (Returned emptyResult (Some (Failure ''timeout'')),
      \<lparr>store = sampleCluster\<lparr>hpps := [sampleCR\<lparr>DeletionTimestamp := Some 5\<rparr>],
         poolDeployments := [''pool-a''], cleanupDone := Inl (Failure ''timeout'')\<rparr>,
       trace = [(SetReadyGaugeValue 0, None), (CleanDeployments ''hpp'', None)]\<rparr>) \<and>
   Returned emptyResult (Some (Failure ''timeout''))
     \<noteq> Returned \<lparr>Requeue = False, RequeueAfter = Second\<rparr> None"
  by (simp add: run_defs call_defs sample_defs)

subsection \<open>Heartbeat suppression in a run\<close>





lemma advances_same:
  "ResourceVersion c' = ResourceVersion c \<Longrightarrow>
   writtenUpdates (trace w') = writtenUpdates (trace w) \<Longrightarrow> advances rank w c w' c'"
  by (simp add: advances_def)























end
